theory Spec2Isabelle
  imports Main "HOL-Library.AList" "HOL-Library.Multiset"
begin

section \<open>Values, rows and the world of the collector\<close>

text \<open>
  \<open>global_data_collector.py\<close> talks to four things outside itself: the network
  (\<open>requests.get\<close>), the parsing libraries (\<open>BeautifulSoup\<close>, \<open>json\<close>), the SQLite
  file and the data directory. The model keeps the collector's own control flow and
  threads a \<open>world\<close> through it: the tables of the database, the files of the data
  directory, the log, and the trace of requests issued. What the outside answers is
  taken from an environment \<open>env\<close> of oracles, so every theorem holds for any network,
  any document and any pattern of database or disk faults.
\<close>

text \<open>
  A Python \<open>str\<close> is a sequence of Unicode code points. Text that comes out of a
  document is kept as such a sequence of integers (\<open>ustring\<close>); the addresses, names and messages
  that the collector itself writes are ASCII and are written as \<open>string\<close>, \<open>ustr\<close>
  giving their code points.
\<close>

type_synonym ustring = "int list"

definition ustr :: "string \<Rightarrow> ustring" where
  "ustr s = map of_char s"

text \<open>
  A value of a dictionary handed to SQLite: a Python \<open>str\<close> or \<open>None\<close>. \<open>PyStr\<close> is the
  \<open>str\<close> of an ASCII text.
\<close>

datatype pyval = PyNone | PyText ustring

abbreviation PyStr :: "string \<Rightarrow> pyval" where
  "PyStr s \<equiv> PyText (ustr s)"

type_synonym pydict = "(string \<times> pyval) list"

text \<open>A stored row: the surrogate \<open>id\<close> and the columns that were inserted.\<close>

record row =
  row_id :: nat
  cells :: pydict

type_synonym store = "(string \<times> row list) list"

text \<open>
  The tree \<open>BeautifulSoup\<close> builds. Attributes are left out: the collector never reads
  one. \<open>Text\<close> is a \<open>NavigableString\<close>, \<open>Comment\<close> its subclass of that name.
\<close>

datatype node = Text ustring | Comment ustring | Element string "node list"

text \<open>The exceptions the libraries raise into the collector.\<close>

datatype exn =
    ConnectionError
  | Timeout
  | HTTPError nat
  | JSONDecodeError
  | ParserRejectedMarkup
  | ParserError
  | OperationalError
  | OSError
  | ValueError

datatype http_result = Response nat string | Failed exn

datatype log_entry = LogInfo string | LogWarning string | LogError string exn

record report =
  rep_timestamp :: string
  rep_web_scraping :: nat
  rep_api_data :: nat
  rep_news_articles :: nat
  rep_storage_size :: string
  rep_file_count :: int

text \<open>
  What \<open>json.dump\<close> wrote into a file of the data directory: the page dictionary, the
  parsed API document, or the report.
\<close>

datatype 'j content = PageDump pydict | ApiDump 'j | ReportDump report

record 'j world =
  store :: store
  files :: "(string \<times> 'j content) list"
  log :: "log_entry list"
  requests :: "string list"
  ticks :: nat
  connects :: nat
  inserts :: nat
  opens :: nat

text \<open>
  The oracles. \<open>http_get n url params\<close> is what the \<open>n\<close>-th \<open>requests.get\<close> of the run
  answers; \<open>isoformat n\<close> and \<open>strftime n\<close> render the \<open>n\<close>-th reading of
  \<open>datetime.now()\<close>; \<open>connect_fault n\<close> says that the \<open>n\<close>-th \<open>sqlite3.connect\<close> raises,
  \<open>execute_fault n t d\<close> that the \<open>n\<close>-th \<open>INSERT\<close> raises, \<open>open_fault n f\<close> that the
  \<open>n\<close>-th \<open>open(f, 'w')\<close> raises. \<open>storage_size\<close> stands for \<open>get_storage_size\<close>, which
  walks the directory and formats a floating-point number of megabytes.
\<close>

record 'j env =
  http_get :: "nat \<Rightarrow> string \<Rightarrow> (string \<times> string) list option \<Rightarrow> http_result"
  html_parser :: "string \<Rightarrow> node list option"
  xml_parser :: "string \<Rightarrow> node list option"
  json_loads :: "string \<Rightarrow> 'j option"
  json_dumps :: "'j \<Rightarrow> string"
  isoformat :: "nat \<Rightarrow> string"
  strftime :: "nat \<Rightarrow> string"
  connect_fault :: "nat \<Rightarrow> bool"
  execute_fault :: "nat \<Rightarrow> string \<Rightarrow> pydict \<Rightarrow> bool"
  open_fault :: "nat \<Rightarrow> string \<Rightarrow> bool"
  storage_size :: "store \<Rightarrow> (string \<times> 'j content) list \<Rightarrow> string"

section \<open>The parts of BeautifulSoup the collector uses\<close>

text \<open>All nodes of a forest in document order, as \<open>Tag.descendants\<close> yields them.\<close>

fun walk :: "node \<Rightarrow> node list" and walks :: "node list \<Rightarrow> node list" where
  "walk (Text s) = [Text s]"
| "walk (Comment s) = [Comment s]"
| "walk (Element n cs) = Element n cs # walks cs"
| "walks [] = []"
| "walks (x # xs) = walk x @ walks xs"

fun is_tag :: "string list \<Rightarrow> node \<Rightarrow> bool" where
  "is_tag names (Element n cs) = (n \<in> set names)"
| "is_tag names _ = False"

text \<open>\<open>tag.find_all(names)\<close> and \<open>tag.find(name)\<close> (also written \<open>tag.name\<close>).\<close>

definition find_all :: "string list \<Rightarrow> node list \<Rightarrow> node list" where
  "find_all names forest = filter (is_tag names) (walks forest)"

definition find_first :: "string \<Rightarrow> node list \<Rightarrow> node option" where
  "find_first name forest =
     (case find_all [name] forest of [] \<Rightarrow> None | t # _ \<Rightarrow> Some t)"

fun children :: "node \<Rightarrow> node list" where
  "children (Element n cs) = cs"
| "children _ = []"

text \<open>
  \<open>tag.string\<close>: the only child if it is a string, the \<open>.string\<close> of the only child if
  it is a tag, otherwise \<open>None\<close>.
\<close>

fun tag_string :: "node \<Rightarrow> ustring option" where
  "tag_string (Element n [Text s]) = Some s"
| "tag_string (Element n [Comment s]) = Some s"
| "tag_string (Element n [Element m cs]) = tag_string (Element m cs)"
| "tag_string _ = None"

text \<open>
  The loop \<open>for script in soup(names): script.decompose()\<close>: every element with one of
  the names leaves the tree, with all it contains.
\<close>

fun decompose_all :: "string list \<Rightarrow> node list \<Rightarrow> node list" where
  "decompose_all names [] = []"
| "decompose_all names (Text s # rest) = Text s # decompose_all names rest"
| "decompose_all names (Comment s # rest) = Comment s # decompose_all names rest"
| "decompose_all names (Element n cs # rest) =
     (if n \<in> set names then decompose_all names rest
      else Element n (decompose_all names cs) # decompose_all names rest)"

text \<open>The strings \<open>get_text\<close> visits: text nodes, not comments.\<close>

fun node_text :: "node \<Rightarrow> ustring list" where
  "node_text (Text s) = [s]"
| "node_text _ = []"

definition all_strings :: "node list \<Rightarrow> ustring list" where
  "all_strings forest = concat (map node_text (walks forest))"

text \<open>
  The code points that \<open>str.strip()\<close> removes, those for which \<open>str.isspace\<close> holds:
  U+0009 to U+000D, U+001C to U+0020, U+0085, U+00A0, U+1680, U+2000 to U+200A, U+2028,
  U+2029, U+202F, U+205F and U+3000.
\<close>

definition py_space :: "int \<Rightarrow> bool" where
  "py_space c =
     ((9 \<le> c \<and> c \<le> 13) \<or> (28 \<le> c \<and> c \<le> 32) \<or> c = 133 \<or> c = 160 \<or> c = 5760
      \<or> (8192 \<le> c \<and> c \<le> 8202) \<or> c = 8232 \<or> c = 8233 \<or> c = 8239 \<or> c = 8287
      \<or> c = 12288)"

definition strip :: "ustring \<Rightarrow> ustring" where
  "strip s = rev (dropWhile py_space (rev (dropWhile py_space s)))"

fun join :: "'a list \<Rightarrow> 'a list list \<Rightarrow> 'a list" where
  "join sep [] = []"
| "join sep [x] = x"
| "join sep (x # y # ys) = x @ sep @ join sep (y # ys)"

text \<open>\<open>get_text(separator, strip)\<close>.\<close>

definition get_text :: "ustring \<Rightarrow> bool \<Rightarrow> node list \<Rightarrow> ustring" where
  "get_text separator strp forest =
     (if strp
      then join separator (filter (\<lambda>s. s \<noteq> []) (map strip (all_strings forest)))
      else join separator (all_strings forest))"

section \<open>Effects: log, clock, network, database, files\<close>

definition logger :: "log_entry \<Rightarrow> 'j world \<Rightarrow> 'j world" where
  "logger e w = w\<lparr>log := log w @ [e]\<rparr>"

text \<open>\<open>datetime.now()\<close>: the index of the reading; the clock moves on.\<close>

definition now :: "'j world \<Rightarrow> nat \<times> 'j world" where
  "now w = (ticks w, w\<lparr>ticks := Suc (ticks w)\<rparr>)"

text \<open>Sequencing of steps that may raise: an exception skips what follows.\<close>

definition then_do ::
  "('w \<Rightarrow> (exn + 'a) \<times> 'w) \<Rightarrow> ('a \<Rightarrow> 'w \<Rightarrow> (exn + 'b) \<times> 'w) \<Rightarrow> 'w \<Rightarrow> (exn + 'b) \<times> 'w" where
  "then_do m f w = (case m w of (Inl e, w') \<Rightarrow> (Inl e, w') | (Inr a, w') \<Rightarrow> f a w')"

text \<open>
  \<open>requests.get(url, headers=..., params=..., timeout=10)\<close>: one request goes out and is
  recorded; a transport error or a timeout raises.
\<close>

definition requests_get ::
  "'j env \<Rightarrow> string \<Rightarrow> (string \<times> string) list option \<Rightarrow> 'j world \<Rightarrow> (exn + nat \<times> string) \<times> 'j world" where
  "requests_get env url params w =
     (let w' = w\<lparr>requests := requests w @ [url]\<rparr> in
      case http_get env (length (requests w)) url params of
        Failed e \<Rightarrow> (Inl e, w')
      | Response status body \<Rightarrow> (Inr (status, body), w'))"

text \<open>\<open>response.raise_for_status()\<close> raises for the 4xx and 5xx codes.\<close>

definition raise_for_status :: "nat \<Rightarrow> 'j world \<Rightarrow> (exn + unit) \<times> 'j world" where
  "raise_for_status status w =
     (if 400 \<le> status \<and> status < 600 then (Inl (HTTPError status), w) else (Inr (), w))"

text \<open>\<open>INTEGER PRIMARY KEY AUTOINCREMENT\<close>: one more than the largest id of the table.\<close>

definition next_id :: "row list \<Rightarrow> nat" where
  "next_id rows = Suc (fold max (map row_id rows) 0)"

definition create_table :: "string \<Rightarrow> store \<Rightarrow> store" where
  "create_table name st = (if name \<in> fst ` set st then st else st @ [(name, [])])"

text \<open>
  \<open>init_database\<close>: \<open>CREATE TABLE IF NOT EXISTS\<close> for the three tables. The connection
  is opened outside any \<open>try\<close>.
\<close>

definition init_database :: "'j env \<Rightarrow> 'j world \<Rightarrow> (exn + unit) \<times> 'j world" where
  "init_database env w =
     (let w1 = w\<lparr>connects := Suc (connects w)\<rparr> in
      if connect_fault env (connects w) then (Inl OperationalError, w1)
      else (Inr (), w1\<lparr>store :=
              create_table ''news_articles''
                (create_table ''api_data'' (create_table ''web_data'' (store w1)))\<rparr>))"

text \<open>
  \<open>save_to_database\<close> (lines 74-90). \<open>sqlite3.connect\<close> stands before the \<open>try\<close>, so its
  failure leaves the function as an exception. The \<open>INSERT\<close> is inside the \<open>try\<close>: it
  fails when the table does not exist or when SQLite reports a fault, and then the
  handler logs and the function returns.
\<close>

definition save_to_database ::
  "'j env \<Rightarrow> string \<Rightarrow> pydict \<Rightarrow> 'j world \<Rightarrow> (exn + unit) \<times> 'j world" where
  "save_to_database env table_name data_dict w =
     (let w1 = w\<lparr>connects := Suc (connects w)\<rparr> in
      if connect_fault env (connects w) then (Inl OperationalError, w1)
      else
        let w2 = w1\<lparr>inserts := Suc (inserts w1)\<rparr> in
        case map_of (store w2) table_name of
          None \<Rightarrow> (Inr (), logger (LogError ''Error saving to database: '' OperationalError) w2)
        | Some rows \<Rightarrow>
            if execute_fault env (inserts w) table_name data_dict
            then (Inr (), logger (LogError ''Error saving to database: '' OperationalError) w2)
            else (Inr (),
                  logger (LogInfo (''Saved data to '' @ table_name @ '' table''))
                    (w2\<lparr>store := AList.update table_name
                         (rows @ [\<lparr>row_id = next_id rows, cells = data_dict\<rparr>]) (store w2)\<rparr>)))"

text \<open>\<open>with open(path, 'w') as f: json.dump(doc, f, ...)\<close>: the file is replaced.\<close>

definition write_file ::
  "'j env \<Rightarrow> string \<Rightarrow> 'j content \<Rightarrow> 'j world \<Rightarrow> (exn + unit) \<times> 'j world" where
  "write_file env filename doc w =
     (let w1 = w\<lparr>opens := Suc (opens w)\<rparr> in
      if open_fault env (opens w) filename then (Inl OSError, w1)
      else (Inr (), w1\<lparr>files := AList.update filename doc (files w1)\<rparr>))"

section \<open>The collector\<close>

text \<open>\<open>soup.title.string if soup.title else "No title"\<close>.\<close>

definition page_title :: "node list \<Rightarrow> pyval" where
  "page_title soup =
     (case find_first ''title'' soup of
        None \<Rightarrow> PyStr ''No title''
      | Some t \<Rightarrow> (case tag_string t of None \<Rightarrow> PyNone | Some s \<Rightarrow> PyText s))"

definition page_text :: "node list \<Rightarrow> ustring" where
  "page_text soup = get_text (ustr '' '') True (decompose_all [''script'', ''style''] soup)"

definition page_data :: "string \<Rightarrow> node list \<Rightarrow> string \<Rightarrow> pydict" where
  "page_data url soup stamp =
     [(''url'', PyStr url),
      (''title'', page_title soup),
      (''content'', PyText (page_text soup)),
      (''timestamp'', PyStr stamp),
      (''source'', PyStr ''web_scraping'')]"

text \<open>
  The body of the \<open>try\<close> of \<open>scrape_website\<close> (lines 95-123). \<open>BeautifulSoup\<close> raises
  when \<open>html.parser\<close> rejects the markup.
\<close>

definition scrape_website_try ::
  "'j env \<Rightarrow> string \<Rightarrow> 'j world \<Rightarrow> (exn + pydict) \<times> 'j world" where
  "scrape_website_try env url =
     then_do (requests_get env url None) (\<lambda>(status, body).
     then_do (raise_for_status status) (\<lambda>_ w.
       case html_parser env body of
         None \<Rightarrow> (Inl ParserRejectedMarkup, w)
       | Some soup \<Rightarrow>
           let (t, w1) = now w;
               data = page_data url soup (isoformat env t)
           in then_do (save_to_database env ''web_data'' data) (\<lambda>_ w2.
                let (t', w3) = now w2;
                    filename = ''webpage_'' @ strftime env t' @ ''.json''
                in then_do (write_file env filename (PageDump data)) (\<lambda>_ w4.
                     (Inr data, logger (LogInfo (''Successfully scraped '' @ url)) w4)) w3) w1))"

text \<open>\<open>scrape_website\<close>: the \<open>except Exception\<close> logs and returns \<open>None\<close>.\<close>

definition scrape_website :: "'j env \<Rightarrow> string \<Rightarrow> 'j world \<Rightarrow> pydict option \<times> 'j world" where
  "scrape_website env url w =
     (case scrape_website_try env url w of
        (Inr data, w') \<Rightarrow> (Some data, w')
      | (Inl e, w') \<Rightarrow> (None, logger (LogError (''Error scraping '' @ url @ '': '') e) w'))"

definition api_data :: "'j env \<Rightarrow> string \<Rightarrow> 'j \<Rightarrow> string \<Rightarrow> pydict" where
  "api_data env endpoint data stamp =
     [(''endpoint'', PyStr endpoint),
      (''data_type'', PyStr ''json''),
      (''data_json'', PyStr (json_dumps env data)),
      (''timestamp'', PyStr stamp)]"

text \<open>The body of the \<open>try\<close> of \<open>fetch_from_api\<close> (lines 132-153).\<close>

definition fetch_from_api_try ::
  "'j env \<Rightarrow> string \<Rightarrow> (string \<times> string) list option \<Rightarrow> 'j world \<Rightarrow> (exn + 'j) \<times> 'j world" where
  "fetch_from_api_try env endpoint params =
     then_do (requests_get env endpoint params) (\<lambda>(status, body).
     then_do (raise_for_status status) (\<lambda>_ w.
       case json_loads env body of
         None \<Rightarrow> (Inl JSONDecodeError, w)
       | Some data \<Rightarrow>
           let (t, w1) = now w;
               row = api_data env endpoint data (isoformat env t)
           in then_do (save_to_database env ''api_data'' row) (\<lambda>_ w2.
                let (t', w3) = now w2;
                    filename = ''api_'' @ strftime env t' @ ''.json''
                in then_do (write_file env filename (ApiDump data)) (\<lambda>_ w4.
                     (Inr data, logger (LogInfo (''Successfully fetched data from '' @ endpoint)) w4)) w3) w1))"

definition fetch_from_api ::
  "'j env \<Rightarrow> string \<Rightarrow> (string \<times> string) list option \<Rightarrow> 'j world \<Rightarrow> 'j option \<times> 'j world" where
  "fetch_from_api env endpoint params w =
     (case fetch_from_api_try env endpoint params w of
        (Inr data, w') \<Rightarrow> (Some data, w')
      | (Inl e, w') \<Rightarrow>
          (None, logger (LogError (''Error fetching from API '' @ endpoint @ '': '') e) w'))"

text \<open>\<open>item.name.text if item.name else dflt\<close>.\<close>

definition item_field :: "string \<Rightarrow> ustring \<Rightarrow> node \<Rightarrow> ustring" where
  "item_field name dflt item =
     (case find_first name (children item) of
        None \<Rightarrow> dflt
      | Some t \<Rightarrow> get_text [] False (children t))"

definition news_data :: "string \<Rightarrow> node \<Rightarrow> string \<Rightarrow> pydict" where
  "news_data feed_url item stamp =
     [(''title'', PyText (item_field ''title'' (ustr ''No title'') item)),
      (''content'', PyText (item_field ''description'' [] item)),
      (''source'', PyStr feed_url),
      (''published_date'', PyText (item_field ''pubDate'' [] item)),
      (''url'', PyText (item_field ''link'' [] item)),
      (''authors'', PyStr []),
      (''timestamp'', PyStr stamp)]"

text \<open>The loop \<open>for item in items\<close> of \<open>parse_rss_feed\<close> (lines 190-206).\<close>

fun save_items :: "'j env \<Rightarrow> string \<Rightarrow> node list \<Rightarrow> 'j world \<Rightarrow> (exn + unit) \<times> 'j world" where
  "save_items env feed_url [] w = (Inr (), w)"
| "save_items env feed_url (item # rest) w =
     (let (t, w1) = now w in
      case save_to_database env ''news_articles'' (news_data feed_url item (isoformat env t)) w1 of
        (Inl e, w2) \<Rightarrow> (Inl e, w2)
      | (Inr _, w2) \<Rightarrow> save_items env feed_url rest w2)"

definition parse_rss_feed_try :: "'j env \<Rightarrow> string \<Rightarrow> 'j world \<Rightarrow> (exn + unit) \<times> 'j world" where
  "parse_rss_feed_try env feed_url =
     then_do (requests_get env feed_url None) (\<lambda>(status, body).
     then_do (raise_for_status status) (\<lambda>_ w.
       case xml_parser env body of
         None \<Rightarrow> (Inl ParserError, w)
       | Some soup \<Rightarrow>
           then_do (save_items env feed_url (find_all [''item''] soup)) (\<lambda>_ w1.
             (Inr (), logger (LogInfo (''Successfully parsed RSS feed from '' @ feed_url)) w1)) w))"

definition parse_rss_feed :: "'j env \<Rightarrow> string \<Rightarrow> 'j world \<Rightarrow> 'j world" where
  "parse_rss_feed env feed_url w =
     (case parse_rss_feed_try env feed_url w of
        (Inr _, w') \<Rightarrow> w'
      | (Inl e, w') \<Rightarrow> logger (LogError (''Error parsing RSS feed '' @ feed_url @ '': '') e) w')"

text \<open>\<open>sub in s\<close> on strings.\<close>

fun contains :: "string \<Rightarrow> string \<Rightarrow> bool" where
  "contains sub [] = (sub = [])"
| "contains sub (c # cs) = (take (length sub) (c # cs) = sub \<or> contains sub cs)"

definition news_sources :: "string list" where
  "news_sources =
     [''http://feeds.bbci.co.uk/news/world/rss.xml'',
      ''https://www.aljazeera.com/xml/rss/all.xml'',
      ''http://rss.cnn.com/rss/cnn_world.rss'']"

definition public_datasets :: "string list" where
  "public_datasets =
     [''https://data.worldbank.org/indicator/NY.GDP.MKTP.CD'',
      ''https://catalog.data.gov/dataset'',
      ''https://www.kaggle.com/datasets'',
      ''https://registry.opendata.aws'']"

definition government_sources :: "string list" where
  "government_sources =
     [''https://www.data.gov'',
      ''https://www.gov.uk/government/statistics'',
      ''https://data.europa.eu'',
      ''https://data.gov.au'']"



text \<open>
  The loops of \<open>collect_news_data\<close>, \<open>collect_public_datasets\<close> and
  \<open>collect_government_data\<close>, over any list of sources. Their \<open>except\<close> branches cannot
  be reached: the functions called in the \<open>try\<close> catch every exception themselves.
\<close>

fun news_loop :: "'j env \<Rightarrow> string list \<Rightarrow> 'j world \<Rightarrow> 'j world" where
  "news_loop env [] w = w"
| "news_loop env (source # rest) w =
     news_loop env rest
       (if contains ''rss'' source then parse_rss_feed env source w
        else snd (fetch_from_api env source None w))"

fun datasets_loop :: "'j env \<Rightarrow> string list \<Rightarrow> 'j world \<Rightarrow> 'j world" where
  "datasets_loop env [] w = w"
| "datasets_loop env (dataset_url # rest) w =
     datasets_loop env rest
       (logger (LogInfo (''Collected dataset info from '' @ dataset_url))
          (snd (scrape_website env dataset_url w)))"

fun government_loop :: "'j env \<Rightarrow> string list \<Rightarrow> 'j world \<Rightarrow> 'j world" where
  "government_loop env [] w = w"
| "government_loop env (source # rest) w =
     government_loop env rest
       (logger (LogInfo (''Collected government data from '' @ source))
          (snd (scrape_website env source w)))"

definition collect_news_data :: "'j env \<Rightarrow> 'j world \<Rightarrow> 'j world" where
  "collect_news_data env = news_loop env news_sources"

definition collect_public_datasets :: "'j env \<Rightarrow> 'j world \<Rightarrow> 'j world" where
  "collect_public_datasets env = datasets_loop env public_datasets"

definition collect_government_data :: "'j env \<Rightarrow> 'j world \<Rightarrow> 'j world" where
  "collect_government_data env = government_loop env government_sources"

text \<open>\<open>count_table_records\<close>: no \<open>try\<close>; a missing table or a failed connection raises.\<close>

definition count_table_records ::
  "'j env \<Rightarrow> string \<Rightarrow> 'j world \<Rightarrow> (exn + nat) \<times> 'j world" where
  "count_table_records env table_name w =
     (let w1 = w\<lparr>connects := Suc (connects w)\<rparr> in
      if connect_fault env (connects w) then (Inl OperationalError, w1)
      else case map_of (store w1) table_name of
             None \<Rightarrow> (Inl OperationalError, w1)
           | Some rows \<Rightarrow> (Inr (length rows), w1))"

text \<open>
  \<open>os.listdir(self.data_storage)\<close>: the database file, which exists from \<open>__init__\<close> on,
  and the files written since.
\<close>

definition listdir :: "'j world \<Rightarrow> string list" where
  "listdir w = ''global_data.db'' # map fst (files w)"

text \<open>
  \<open>generate_summary_report\<close> (lines 291-309). The dictionary literal is evaluated from
  top to bottom; the report is then written into the data directory itself.
\<close>

definition generate_summary_report :: "'j env \<Rightarrow> 'j world \<Rightarrow> (exn + report) \<times> 'j world" where
  "generate_summary_report env w =
     (let (t, w0) = now w in
      then_do (count_table_records env ''web_data'') (\<lambda>n_web.
      then_do (count_table_records env ''api_data'') (\<lambda>n_api.
      then_do (count_table_records env ''news_articles'') (\<lambda>n_news w3.
        let rep = \<lparr>rep_timestamp = isoformat env t,
                   rep_web_scraping = n_web,
                   rep_api_data = n_api,
                   rep_news_articles = n_news,
                   rep_storage_size = storage_size env (store w3) (files w3),
                   rep_file_count = int (length (listdir w3)) - 1\<rparr>
        in then_do (write_file env ''collection_report.json'' (ReportDump rep)) (\<lambda>_ w4.
             (Inr rep,
              logger (LogInfo ''Generated summary report at global_data_collection/collection_report.json'') w4))
             w3))) w0)"

text \<open>
  What \<open>collect_all_data\<close> hands to the pool: \<open>executor.map\<close> submits one call per
  element, \<open>executor.submit\<close> one call.
\<close>

datatype task = ScrapeTask string | ApiTask string | NewsTask | DatasetsTask | GovernmentTask


text \<open>A worker runs a task; what the task returns or raises stays in its future.\<close>

fun run_task :: "'j env \<Rightarrow> task \<Rightarrow> 'j world \<Rightarrow> 'j world" where
  "run_task env (ScrapeTask url) w = snd (scrape_website env url w)"
| "run_task env (ApiTask endpoint) w = snd (fetch_from_api env endpoint None w)"
| "run_task env NewsTask w = collect_news_data env w"
| "run_task env DatasetsTask w = collect_public_datasets env w"
| "run_task env GovernmentTask w = collect_government_data env w"


text \<open>
  \<open>collect_social_media_data\<close>: the list of platforms is empty, the loop body never runs.
\<close>

definition platforms :: "string list" where
  "platforms = []"

definition collect_social_media_data :: "'j world \<Rightarrow> 'j world" where
  "collect_social_media_data w =
     fold (\<lambda>platform. logger (LogWarning (''Social media collection for '' @ platform
             @ '' would require API authentication''))) platforms w"

section \<open>A concrete \<open>json\<close> module\<close>

text \<open>
  Documents without floats, and \<open>json.dumps\<close> with its defaults: separators \<open>", "\<close> and
  \<open>": "\<close>, \<open>ensure_ascii=True\<close>. \<open>loads\<close> reads the fragment of JSON without floats and
  without escapes or non-ASCII characters in strings, and answers \<open>None\<close> outside it; a
  repeated key keeps its first position and its last value, as a \<open>dict\<close> does. The
  general theorems do not depend on this section: they hold for any \<open>json_loads\<close> and
  \<open>json_dumps\<close>.
\<close>

datatype json = JNull | JBool bool | JInt int | JStr string | JArr "json list" | JObj "(string \<times> json) list"

fun digits :: "nat \<Rightarrow> string" where
  "digits n = (if n < 10 then [char_of (48 + n)] else digits (n div 10) @ [char_of (48 + n mod 10)])"

definition int_repr :: "int \<Rightarrow> string" where
  "int_repr i = (if i < 0 then CHR ''-'' # digits (nat (- i)) else digits (nat i))"

definition hex_digit :: "nat \<Rightarrow> char" where
  "hex_digit n = (if n < 10 then char_of (48 + n) else char_of (87 + n))"

definition escape_char :: "char \<Rightarrow> string" where
  "escape_char c =
     (let n = (of_char c :: nat) in
      if c = CHR 0x22 then [CHR 0x5C, CHR 0x22]
      else if c = CHR 0x5C then [CHR 0x5C, CHR 0x5C]
      else if n = 10 then [CHR 0x5C, CHR ''n'']
      else if n = 13 then [CHR 0x5C, CHR ''r'']
      else if n = 9 then [CHR 0x5C, CHR ''t'']
      else if n = 8 then [CHR 0x5C, CHR ''b'']
      else if n = 12 then [CHR 0x5C, CHR ''f'']
      else if 32 \<le> n \<and> n < 127 then [c]
      else [CHR 0x5C, CHR ''u'', CHR ''0'', CHR ''0'', hex_digit (n div 16), hex_digit (n mod 16)])"

definition quote :: "string \<Rightarrow> string" where
  "quote s = CHR 0x22 # concat (map escape_char s) @ [CHR 0x22]"

fun dumps :: "json \<Rightarrow> string" where
  "dumps JNull = ''null''"
| "dumps (JBool b) = (if b then ''true'' else ''false'')"
| "dumps (JInt i) = int_repr i"
| "dumps (JStr s) = quote s"
| "dumps (JArr xs) = ''['' @ join '', '' (map dumps xs) @ '']''"
| "dumps (JObj kvs) = ''{'' @ join '', '' (map (\<lambda>(k, v). quote k @ '': '' @ dumps v) kvs) @ ''}''"

datatype token =
    TLBracket | TRBracket | TLBrace | TRBrace | TComma | TColon
  | TString string | TInt int | TTrue | TFalse | TNull

definition is_digit :: "char \<Rightarrow> bool" where
  "is_digit c = (48 \<le> (of_char c :: nat) \<and> (of_char c :: nat) \<le> 57)"

definition digits_value :: "string \<Rightarrow> nat" where
  "digits_value ds = foldl (\<lambda>acc d. 10 * acc + (of_char d - 48)) 0 ds"

definition plain_char :: "char \<Rightarrow> bool" where
  "plain_char c = (32 \<le> (of_char c :: nat) \<and> (of_char c :: nat) < 127 \<and> c \<noteq> CHR 0x5C)"

definition number_token :: "bool \<Rightarrow> string \<Rightarrow> token option" where
  "number_token negative ds =
     (if ds = [] \<or> (length ds > 1 \<and> hd ds = CHR ''0'') then None
      else Some (TInt (if negative then - int (digits_value ds) else int (digits_value ds))))"

definition float_start :: "string \<Rightarrow> bool" where
  "float_start rest = (case rest of [] \<Rightarrow> False | c # _ \<Rightarrow> c \<in> {CHR ''.'', CHR ''e'', CHR ''E''})"

function lex :: "string \<Rightarrow> token list option" where
  "lex [] = Some []"
| "lex (c # cs) =
     (if c \<in> {CHR '' '', CHR 0x09, CHR 0x0A, CHR 0x0D} then lex cs
      else if c = CHR ''['' then map_option (Cons TLBracket) (lex cs)
      else if c = CHR '']'' then map_option (Cons TRBracket) (lex cs)
      else if c = CHR ''{'' then map_option (Cons TLBrace) (lex cs)
      else if c = CHR ''}'' then map_option (Cons TRBrace) (lex cs)
      else if c = CHR '','' then map_option (Cons TComma) (lex cs)
      else if c = CHR '':'' then map_option (Cons TColon) (lex cs)
      else if c = CHR 0x22 then
        (let s = takeWhile (\<lambda>x. x \<noteq> CHR 0x22) cs in
         if list_all plain_char s \<and> length s < length cs
         then map_option (Cons (TString s)) (lex (drop (Suc (length s)) cs))
         else None)
      else if is_digit c \<or> c = CHR ''-'' then
        (let negative = (c = CHR ''-'');
             ds = (if negative then [] else [c]) @ takeWhile is_digit cs;
             rest = dropWhile is_digit cs
         in if float_start rest then None
            else case number_token negative ds of
                   None \<Rightarrow> None
                 | Some t \<Rightarrow> map_option (Cons t) (lex rest))
      else if take 4 (c # cs) = ''true'' then map_option (Cons TTrue) (lex (drop 3 cs))
      else if take 5 (c # cs) = ''false'' then map_option (Cons TFalse) (lex (drop 4 cs))
      else if take 4 (c # cs) = ''null'' then map_option (Cons TNull) (lex (drop 3 cs))
      else None)"
  by pat_completeness auto
termination
  by (relation "measure length") (auto simp: less_Suc_eq_le length_dropWhile_le)

fun parse_value :: "nat \<Rightarrow> token list \<Rightarrow> (json \<times> token list) option"
  and parse_elems :: "nat \<Rightarrow> token list \<Rightarrow> (json list \<times> token list) option"
  and parse_members :: "nat \<Rightarrow> token list \<Rightarrow> ((string \<times> json) list \<times> token list) option" where
  "parse_value 0 ts = None"
| "parse_value (Suc n) ts =
     (case ts of
        TNull # r \<Rightarrow> Some (JNull, r)
      | TTrue # r \<Rightarrow> Some (JBool True, r)
      | TFalse # r \<Rightarrow> Some (JBool False, r)
      | TInt i # r \<Rightarrow> Some (JInt i, r)
      | TString s # r \<Rightarrow> Some (JStr s, r)
      | TLBracket # TRBracket # r \<Rightarrow> Some (JArr [], r)
      | TLBracket # r \<Rightarrow> map_option (\<lambda>(xs, r'). (JArr xs, r')) (parse_elems n r)
      | TLBrace # TRBrace # r \<Rightarrow> Some (JObj [], r)
      | TLBrace # r \<Rightarrow>
          map_option (\<lambda>(kvs, r'). (JObj (foldl (\<lambda>d (k, v). AList.update k v d) [] kvs), r'))
            (parse_members n r)
      | _ \<Rightarrow> None)"
| "parse_elems 0 ts = None"
| "parse_elems (Suc n) ts =
     (case parse_value n ts of
        None \<Rightarrow> None
      | Some (v, TComma # r) \<Rightarrow> map_option (\<lambda>(vs, r'). (v # vs, r')) (parse_elems n r)
      | Some (v, TRBracket # r) \<Rightarrow> Some ([v], r)
      | Some _ \<Rightarrow> None)"
| "parse_members 0 ts = None"
| "parse_members (Suc n) ts =
     (case ts of
        TString k # TColon # r \<Rightarrow>
          (case parse_value n r of
             None \<Rightarrow> None
           | Some (v, TComma # r') \<Rightarrow> map_option (\<lambda>(kvs, r''). ((k, v) # kvs, r'')) (parse_members n r')
           | Some (v, TRBrace # r') \<Rightarrow> Some ([(k, v)], r')
           | Some _ \<Rightarrow> None)
      | _ \<Rightarrow> None)"

definition loads :: "string \<Rightarrow> json option" where
  "loads s =
     (case lex s of
        None \<Rightarrow> None
      | Some ts \<Rightarrow> (case parse_value (Suc (length ts)) ts of Some (v, []) \<Rightarrow> Some v | _ \<Rightarrow> None))"


section \<open>A concrete environment\<close>

text \<open>
  Two pages, a text that \<open>html.parser\<close> rejects, one API document and one feed, served
  at six of the configured addresses; a seventh answers 503 and every other address
  refuses the connection. The parsers answer with the trees of these documents (and
  with a failure for every text this environment does not serve). No database or disk
  fault occurs.
\<close>

definition demo_html :: string where
  "demo_html = ''<html><head><title>Hello</title><style>p {}</style></head><body><p> Hi </p><script>alert(1)</script><!--note--><p>there</p></body></html>''"

definition demo_page :: "node list" where
  "demo_page =
     [Element ''html''
        [Element ''head''
           [Element ''title'' [Text (ustr ''Hello'')], Element ''style'' [Text (ustr ''p {}'')]],
         Element ''body''
           [Element ''p'' [Text (ustr '' Hi '')],
            Element ''script'' [Text (ustr ''alert(1)'')],
            Comment (ustr ''note''),
            Element ''p'' [Text (ustr ''there'')]]]]"

text \<open>
  A page with an empty \<open>title\<close> element, two spaces inside a text, and non-breaking
  spaces (U+00A0) around and alone in a text.
\<close>

definition odd_html :: string where
  "odd_html = ''<html><head><title></title></head><body><p>a  b</p><p>&nbsp;Hi&nbsp;</p><p>&nbsp;</p></body></html>''"

definition odd_page :: "node list" where
  "odd_page =
     [Element ''html''
        [Element ''head'' [Element ''title'' []],
         Element ''body''
           [Element ''p'' [Text (ustr ''a  b'')],
            Element ''p'' [Text (160 # ustr ''Hi'' @ [160])],
            Element ''p'' [Text [160]]]]]"

text \<open>A marked section with an unknown keyword, on which \<open>html.parser\<close> gives up.\<close>

definition rejected_html :: string where
  "rejected_html = ''<![foo bar]>''"

definition demo_xml :: string where
  "demo_xml = ''<rss><channel><title>Feed</title><item><title>A</title><pubDate>Mon</pubDate><link>http://a</link></item><item><description>d</description></item></channel></rss>''"

definition demo_feed :: "node list" where
  "demo_feed =
     [Element ''rss''
        [Element ''channel''
           [Element ''title'' [Text (ustr ''Feed'')],
            Element ''item''
              [Element ''title'' [Text (ustr ''A'')],
               Element ''pubDate'' [Text (ustr ''Mon'')],
               Element ''link'' [Text (ustr ''http://a'')]],
            Element ''item'' [Element ''description'' [Text (ustr ''d'')]]]]]"

definition demo_env :: "json env" where
  "demo_env =
     \<lparr>http_get = (\<lambda>n url params.
          if url = ''https://www.data.gov'' then Response 200 demo_html
          else if url = ''https://www.worldometers.info/'' then Response 200 odd_html
          else if url = ''https://www.who.int/data/gho'' then Response 200 rejected_html
          else if url = ''https://restcountries.com/v3.1/all'' then Response 200 ''[1,2]''
          else if url = ''http://rss.cnn.com/rss/cnn_world.rss'' then Response 200 demo_xml
          else if url = ''https://data.gov.au'' then Response 503 []
          else Failed ConnectionError),
      html_parser = (\<lambda>text.
          if text = demo_html then Some demo_page
          else if text = odd_html then Some odd_page
          else None),
      xml_parser = (\<lambda>text. if text = demo_xml then Some demo_feed else None),
      json_loads = loads,
      json_dumps = dumps,
      isoformat = (\<lambda>n. ''2024-01-01T00:00:00.'' @ digits n),
      strftime = (\<lambda>n. ''20240101_000000''),
      connect_fault = (\<lambda>n. False),
      execute_fault = (\<lambda>n t d. False),
      open_fault = (\<lambda>n f. False),
      storage_size = (\<lambda>st fs. ''0.00 MB'')\<rparr>"

definition empty_world :: "json world" where
  "empty_world =
     \<lparr>store = [], files = [], log = [], requests = [], ticks = 0, connects = 0,
      inserts = 0, opens = 0\<rparr>"

definition fresh_world :: "json world" where
  "fresh_world = snd (init_database demo_env empty_world)"


text \<open>The same environment with a database that rejects every \<open>INSERT\<close>.\<close>

definition faulty_db_env :: "json env" where
  "faulty_db_env = demo_env\<lparr>execute_fault := (\<lambda>n t d. True)\<rparr>"

text \<open>The same environment with a database that rejects its first \<open>INSERT\<close> only.\<close>

definition flaky_db_env :: "json env" where
  "flaky_db_env = demo_env\<lparr>execute_fault := (\<lambda>n t d. n = 0)\<rparr>"

text \<open>The same environment with a disk that refuses every \<open>open\<close>.\<close>

definition faulty_disk_env :: "json env" where
  "faulty_disk_env = demo_env\<lparr>open_fault := (\<lambda>n f. True)\<rparr>"

text \<open>The world after the feed has been collected and a first report written.\<close>

definition reported_world :: "json world" where
  "reported_world =
     snd (generate_summary_report demo_env
            (parse_rss_feed demo_env ''http://rss.cnn.com/rss/cnn_world.rss'' fresh_world))"



section \<open>The page text as the specification words it\<close>

text \<open>
  The text nodes of a forest that lie in no element with one of the given names, in
  document order: the text of the page "with script/style content excluded".
\<close>

fun visible_texts :: "string list \<Rightarrow> node list \<Rightarrow> ustring list" where
  "visible_texts names [] = []"
| "visible_texts names (Text s # rest) = s # visible_texts names rest"
| "visible_texts names (Comment s # rest) = visible_texts names rest"
| "visible_texts names (Element n cs # rest) =
     (if n \<in> set names then visible_texts names rest
      else visible_texts names cs @ visible_texts names rest)"

section \<open>Rows appended between two worlds\<close>

text \<open>
  \<open>appended_rows w w' t new\<close>: from \<open>w\<close> to \<open>w'\<close> the table \<open>t\<close> has kept its rows and
  gained the rows \<open>new\<close> at its end (and a table that does not exist still does not).
  \<open>appends_only good w w'\<close>: every table has only gained rows, and each gained row
  satisfies \<open>good\<close>. \<open>builders_good good\<close>: \<open>good\<close> holds of every row that carries a
  dictionary built by \<open>scrape_website\<close> for \<open>web_data\<close> or by \<open>parse_rss_feed\<close> for
  \<open>news_articles\<close>, and of every row of any other table.
\<close>

definition appended_rows :: "'j world \<Rightarrow> 'j world \<Rightarrow> string \<Rightarrow> row list \<Rightarrow> bool" where
  "appended_rows w w' t new =
     (map_of (store w') t = map_option (\<lambda>rows. rows @ new) (map_of (store w) t))"

definition appends_only :: "(string \<Rightarrow> row \<Rightarrow> bool) \<Rightarrow> 'j world \<Rightarrow> 'j world \<Rightarrow> bool" where
  "appends_only good w w' =
     (\<forall>t. \<exists>new. appended_rows w w' t new \<and> (\<forall>r\<in>set new. good t r))"

definition builders_good :: "(string \<Rightarrow> row \<Rightarrow> bool) \<Rightarrow> bool" where
  "builders_good good =
     ((\<forall>i url soup stamp. good ''web_data'' \<lparr>row_id = i, cells = page_data url soup stamp\<rparr>)
      \<and> (\<forall>i feed item stamp. good ''news_articles'' \<lparr>row_id = i, cells = news_data feed item stamp\<rparr>)
      \<and> (\<forall>i t d. t \<noteq> ''web_data'' \<and> t \<noteq> ''news_articles'' \<longrightarrow> good t \<lparr>row_id = i, cells = d\<rparr>))"

section \<open>The addresses a task requests\<close>


section \<open>The records of a feed that the database accepts\<close>

text \<open>
  The dictionaries of the items whose insert is accepted, in document order, when the
  first item is stamped with the clock reading \<open>t\<close> and sent with the \<open>INSERT\<close> number
  \<open>n\<close>, and each further item with the next reading and the next number.
\<close>

fun accepted_news :: "'j env \<Rightarrow> string \<Rightarrow> nat \<Rightarrow> nat \<Rightarrow> node list \<Rightarrow> pydict list" where
  "accepted_news env feed_url t n [] = []"
| "accepted_news env feed_url t n (item # rest) =
     (if execute_fault env n ''news_articles'' (news_data feed_url item (isoformat env t))
      then []
      else [news_data feed_url item (isoformat env t)])
     @ accepted_news env feed_url (Suc t) (Suc n) rest"

section \<open>Properties\<close>

lemma fresh_world_eq:
  "fresh_world =
     \<lparr>store = [(''web_data'', []), (''api_data'', []), (''news_articles'', [])],
      files = [], log = [], requests = [], ticks = 0, connects = 1, inserts = 0, opens = 0\<rparr>"
  by (simp add: fresh_world_def init_database_def empty_world_def create_table_def demo_env_def)

subsection \<open>A failed insert\<close>

text \<open>
  C2. Whatever the table and the record: when the connection opens and the \<open>INSERT\<close>
  fails (the table does not exist, or SQLite raises), \<open>save_to_database\<close> returns
  normally; it has made that one attempt and no other, has logged one error, and the
  store is what it was, so the record is dropped. (A failure of \<open>sqlite3.connect\<close>
  itself is outside the \<open>try\<close> and is not part of this statement.)
\<close>

theorem save_to_database_failed_insert:
  assumes "\<not> connect_fault env (connects w)"
    and "map_of (store w) table_name = None
         \<or> execute_fault env (inserts w) table_name data_dict"
  shows "save_to_database env table_name data_dict w =
           (Inr (), w\<lparr>connects := Suc (connects w), inserts := Suc (inserts w),
                       log := log w @ [LogError ''Error saving to database: '' OperationalError]\<rparr>)
         \<and> store (snd (save_to_database env table_name data_dict w)) = store w
         \<and> inserts (snd (save_to_database env table_name data_dict w)) = Suc (inserts w)"
  using assms by (auto simp: save_to_database_def logger_def Let_def split: option.splits)

theorem save_to_database_failed_insert_witness:
  "\<not> connect_fault faulty_db_env (connects fresh_world)
   \<and> execute_fault faulty_db_env (inserts fresh_world) ''web_data'' [(''url'', PyStr ''u'')]
   \<and> fst (save_to_database faulty_db_env ''web_data'' [(''url'', PyStr ''u'')] fresh_world) = Inr ()
   \<and> store (snd (save_to_database faulty_db_env ''web_data'' [(''url'', PyStr ''u'')] fresh_world))
       = [(''web_data'', []), (''api_data'', []), (''news_articles'', [])]
   \<and> log (snd (save_to_database faulty_db_env ''web_data'' [(''url'', PyStr ''u'')] fresh_world))
       = [LogError ''Error saving to database: '' OperationalError]"
proof -
  have c: "\<not> connect_fault faulty_db_env (connects fresh_world)"
    by (simp add: faulty_db_env_def demo_env_def)
  have x: "execute_fault faulty_db_env (inserts fresh_world) ''web_data'' [(''url'', PyStr ''u'')]"
    by (simp add: faulty_db_env_def)
  from save_to_database_failed_insert [OF c disjI2, OF x] c x show ?thesis
    by (simp add: fresh_world_eq)
qed

subsection \<open>Lemmas on the steps\<close>

lemma all_strings_simps:
  "all_strings [] = []"
  "all_strings (Text s # rest) = s # all_strings rest"
  "all_strings (Comment s # rest) = all_strings rest"
  "all_strings (Element n cs # rest) = all_strings cs @ all_strings rest"
  by (simp_all add: all_strings_def)

lemma all_strings_decompose_all:
  "all_strings (decompose_all names forest) = visible_texts names forest"
  by (induction names forest rule: decompose_all.induct) (simp_all add: all_strings_simps)

lemma then_do_Inr: "m w = (Inr a, w') \<Longrightarrow> then_do m f w = f a w'"
  by (simp add: then_do_def)

lemma then_do_Inl: "m w = (Inl e, w') \<Longrightarrow> then_do m f w = (Inl e, w')"
  by (simp add: then_do_def)


lemma save_to_database_ok:
  assumes "\<not> connect_fault env (connects w)"
    and "map_of (store w) t = Some rows"
    and "\<not> execute_fault env (inserts w) t d"
  shows "save_to_database env t d w =
           (Inr (), w\<lparr>connects := Suc (connects w), inserts := Suc (inserts w),
                       store := AList.update t (rows @ [\<lparr>row_id = next_id rows, cells = d\<rparr>]) (store w),
                       log := log w @ [LogInfo (''Saved data to '' @ t @ '' table'')]\<rparr>)"
  using assms by (simp add: save_to_database_def logger_def Let_def)

lemma scrape_website_store:
  assumes "http_get env (length (requests w)) url None = Response status body"
    and "\<not> (400 \<le> status \<and> status < 600)"
    and "html_parser env body = Some soup"
  shows "store (snd (scrape_website env url w)) =
         store (snd (save_to_database env ''web_data''
                 (page_data url soup (isoformat env (ticks w)))
                 (w\<lparr>requests := requests w @ [url], ticks := Suc (ticks w)\<rparr>)))"
  using assms
  by (auto simp: scrape_website_def scrape_website_try_def then_do_def requests_get_def
        raise_for_status_def now_def save_to_database_def write_file_def logger_def Let_def
      split: option.splits)

lemma fetch_from_api_store:
  assumes "http_get env (length (requests w)) endpoint params = Response status body"
    and "\<not> (400 \<le> status \<and> status < 600)"
    and "json_loads env body = Some data"
  shows "store (snd (fetch_from_api env endpoint params w)) =
         store (snd (save_to_database env ''api_data''
                 (api_data env endpoint data (isoformat env (ticks w)))
                 (w\<lparr>requests := requests w @ [endpoint], ticks := Suc (ticks w)\<rparr>)))"
  using assms
  by (auto simp: fetch_from_api_def fetch_from_api_try_def then_do_def requests_get_def
        raise_for_status_def now_def save_to_database_def write_file_def logger_def Let_def
      split: option.splits)

lemma map_of_update_row:
  "map_of (AList.update t v st) t = Some v"
  by (simp add: update_conv')

subsection \<open>The page record\<close>

text \<open>
  C4, as amended. A page that was fetched (an answer whose status is not 4xx or 5xx)
  and that the parser accepts leads to exactly one call of \<open>save_to_database\<close>, on
  \<open>web_data\<close>, with one record; the store after \<open>scrape_website\<close> is the store after
  that call, and when the insert succeeds the table has gained exactly that row and no
  other table has changed. The title of the record is \<open>"No title"\<close> when the document
  has no \<open>title\<close> element; otherwise it is the string of the first \<open>title\<close> element when
  that element holds a single string, and \<open>None\<close> when it does not. Its content is made
  of the text nodes outside every \<open>script\<close> and \<open>style\<close> element, each stripped of the
  whitespace around it (whitespace inside a text node is kept), the empty ones
  dropped, joined by single spaces.
\<close>

theorem scrape_website_record:
  assumes "http_get env (length (requests w)) url None = Response status body"
    and "\<not> (400 \<le> status \<and> status < 600)"
    and "html_parser env body = Some soup"
  shows "(let data = page_data url soup (isoformat env (ticks w));
              w' = snd (scrape_website env url w)
          in store w' = store (snd (save_to_database env ''web_data'' data
                                 (w\<lparr>requests := requests w @ [url], ticks := Suc (ticks w)\<rparr>)))
           \<and> (\<not> connect_fault env (connects w) \<and> map_of (store w) ''web_data'' = Some rows
                \<and> \<not> execute_fault env (inserts w) ''web_data'' data
              \<longrightarrow> map_of (store w') ''web_data''
                    = Some (rows @ [\<lparr>row_id = next_id rows, cells = data\<rparr>])
                  \<and> (\<forall>t. t \<noteq> ''web_data'' \<longrightarrow> map_of (store w') t = map_of (store w) t))
           \<and> map_of data ''title''
               = Some (case find_first ''title'' soup of
                         None \<Rightarrow> PyStr ''No title''
                       | Some t \<Rightarrow> (case tag_string t of None \<Rightarrow> PyNone | Some s \<Rightarrow> PyText s))
           \<and> map_of data ''content''
               = Some (PyText (join (ustr '' '') (filter (\<lambda>s. s \<noteq> [])
                        (map strip (visible_texts [''script'', ''style''] soup))))))"
proof -
  let ?data = "page_data url soup (isoformat env (ticks w))"
  let ?w1 = "w\<lparr>requests := requests w @ [url], ticks := Suc (ticks w)\<rparr>"
  have st: "store (snd (scrape_website env url w))
            = store (snd (save_to_database env ''web_data'' ?data ?w1))"
    using assms by (rule scrape_website_store)
  have ok: "map_of (store (snd (scrape_website env url w))) ''web_data''
              = Some (rows @ [\<lparr>row_id = next_id rows, cells = ?data\<rparr>])
            \<and> (\<forall>t. t \<noteq> ''web_data'' \<longrightarrow>
                  map_of (store (snd (scrape_website env url w))) t = map_of (store w) t)"
    if "\<not> connect_fault env (connects w)" "map_of (store w) ''web_data'' = Some rows"
       "\<not> execute_fault env (inserts w) ''web_data'' ?data"
  proof -
    have "save_to_database env ''web_data'' ?data ?w1 =
            (Inr (), ?w1\<lparr>connects := Suc (connects ?w1), inserts := Suc (inserts ?w1),
               store := AList.update ''web_data'' (rows @ [\<lparr>row_id = next_id rows, cells = ?data\<rparr>]) (store ?w1),
               log := log ?w1 @ [LogInfo (''Saved data to '' @ ''web_data'' @ '' table'')]\<rparr>)"
      by (rule save_to_database_ok) (use that in simp_all)
    then show ?thesis
      by (simp add: st update_conv')
  qed
  have title: "map_of ?data ''title''
               = Some (case find_first ''title'' soup of
                         None \<Rightarrow> PyStr ''No title''
                       | Some t \<Rightarrow> (case tag_string t of None \<Rightarrow> PyNone | Some s \<Rightarrow> PyText s))"
    by (simp add: page_data_def page_title_def)
  have content: "map_of ?data ''content''
               = Some (PyText (join (ustr '' '') (filter (\<lambda>s. s \<noteq> [])
                        (map strip (visible_texts [''script'', ''style''] soup)))))"
    by (simp add: page_data_def page_text_def get_text_def all_strings_decompose_all)
  show ?thesis
    unfolding Let_def using st ok title content by blast
qed

theorem scrape_website_record_witness:
  "http_get demo_env (length (requests fresh_world)) ''https://www.data.gov'' None
     = Response 200 demo_html
   \<and> \<not> (400 \<le> (200::nat) \<and> (200::nat) < 600)
   \<and> html_parser demo_env demo_html = Some demo_page
   \<and> map_of (store (snd (scrape_website demo_env ''https://www.data.gov'' fresh_world))) ''web_data''
       = Some [\<lparr>row_id = 1,
                 cells = [(''url'', PyStr ''https://www.data.gov''),
                          (''title'', PyStr ''Hello''),
                          (''content'', PyStr ''Hello Hi there''),
                          (''timestamp'', PyStr ''2024-01-01T00:00:00.0''),
                          (''source'', PyStr ''web_scraping'')]\<rparr>]"
proof -
  have h1: "http_get demo_env (length (requests fresh_world)) ''https://www.data.gov'' None
              = Response 200 demo_html"
    and h3: "html_parser demo_env demo_html = Some demo_page"
    by (simp_all add: demo_env_def)
  have h2: "\<not> (400 \<le> (200::nat) \<and> (200::nat) < 600)"
    by simp
  have d: "page_data ''https://www.data.gov'' demo_page (isoformat demo_env (ticks fresh_world))
           = [(''url'', PyStr ''https://www.data.gov''),
              (''title'', PyStr ''Hello''),
              (''content'', PyStr ''Hello Hi there''),
              (''timestamp'', PyStr ''2024-01-01T00:00:00.0''),
              (''source'', PyStr ''web_scraping'')]"
    by code_simp
  have c: "\<not> connect_fault demo_env (connects fresh_world)"
    and x: "\<And>d. \<not> execute_fault demo_env (inserts fresh_world) ''web_data'' d"
    by (simp_all add: demo_env_def)
  have m: "map_of (store fresh_world) ''web_data'' = Some []"
    by (simp add: fresh_world_eq)
  have r: "map_of (store (snd (scrape_website demo_env ''https://www.data.gov'' fresh_world))) ''web_data''
             = Some ([] @ [\<lparr>row_id = next_id [],
                   cells = page_data ''https://www.data.gov'' demo_page
                             (isoformat demo_env (ticks fresh_world))\<rparr>])"
    using scrape_website_record [OF h1 h2 h3, of "[]"] c x m unfolding Let_def by blast
  show ?thesis
    using h1 h2 h3 r unfolding d by (simp add: next_id_def)
qed

text \<open>
  C4 as stated fails. A fetched page with an empty \<open>title\<close> element is stored with the
  title \<open>None\<close>, neither a title text nor \<open>"No title"\<close>, and its content keeps the two
  spaces inside \<open>a  b\<close>. A fetched page that the parser rejects is stored in no row, and
  so is a page whose insert the database rejects.
\<close>

theorem scrape_website_not_as_claimed:
  "http_get demo_env (length (requests fresh_world)) ''https://www.worldometers.info/'' None
     = Response 200 odd_html
   \<and> html_parser demo_env odd_html = Some odd_page
   \<and> map_of (store (snd (scrape_website demo_env ''https://www.worldometers.info/'' fresh_world)))
        ''web_data''
       = Some [\<lparr>row_id = 1,
                 cells = [(''url'', PyStr ''https://www.worldometers.info/''),
                          (''title'', PyNone),
                          (''content'', PyStr ''a  b Hi''),
                          (''timestamp'', PyStr ''2024-01-01T00:00:00.0''),
                          (''source'', PyStr ''web_scraping'')]\<rparr>]
   \<and> http_get demo_env (length (requests fresh_world)) ''https://www.who.int/data/gho'' None
       = Response 200 rejected_html
   \<and> html_parser demo_env rejected_html = None
   \<and> map_of (store (snd (scrape_website demo_env ''https://www.who.int/data/gho'' fresh_world)))
        ''web_data'' = Some []
   \<and> http_get faulty_db_env (length (requests fresh_world)) ''https://www.data.gov'' None
       = Response 200 demo_html
   \<and> map_of (store (snd (scrape_website faulty_db_env ''https://www.data.gov'' fresh_world)))
        ''web_data'' = Some []"
  by code_simp

subsection \<open>The API record\<close>

text \<open>
  C1, as amended. An API answer that was fetched and whose body parses leads to
  exactly one call of \<open>save_to_database\<close>, on \<open>api_data\<close>, with one record; when the
  insert succeeds the table has gained exactly that row. The \<open>data_json\<close> of the record
  is \<open>json.dumps\<close> of the parsed document, a new serialisation, not the text of the
  body.
\<close>

theorem fetch_from_api_record:
  assumes "http_get env (length (requests w)) endpoint params = Response status body"
    and "\<not> (400 \<le> status \<and> status < 600)"
    and "json_loads env body = Some data"
  shows "(let row = api_data env endpoint data (isoformat env (ticks w));
              w' = snd (fetch_from_api env endpoint params w)
          in store w' = store (snd (save_to_database env ''api_data'' row
                                 (w\<lparr>requests := requests w @ [endpoint], ticks := Suc (ticks w)\<rparr>)))
           \<and> (\<not> connect_fault env (connects w) \<and> map_of (store w) ''api_data'' = Some rows
                \<and> \<not> execute_fault env (inserts w) ''api_data'' row
              \<longrightarrow> map_of (store w') ''api_data''
                    = Some (rows @ [\<lparr>row_id = next_id rows, cells = row\<rparr>])
                  \<and> (\<forall>t. t \<noteq> ''api_data'' \<longrightarrow> map_of (store w') t = map_of (store w) t))
           \<and> map_of row ''data_json'' = Some (PyStr (json_dumps env data)))"
proof -
  let ?row = "api_data env endpoint data (isoformat env (ticks w))"
  let ?w1 = "w\<lparr>requests := requests w @ [endpoint], ticks := Suc (ticks w)\<rparr>"
  have st: "store (snd (fetch_from_api env endpoint params w))
            = store (snd (save_to_database env ''api_data'' ?row ?w1))"
    using assms by (rule fetch_from_api_store)
  have ok: "map_of (store (snd (fetch_from_api env endpoint params w))) ''api_data''
              = Some (rows @ [\<lparr>row_id = next_id rows, cells = ?row\<rparr>])
            \<and> (\<forall>t. t \<noteq> ''api_data'' \<longrightarrow>
                  map_of (store (snd (fetch_from_api env endpoint params w))) t = map_of (store w) t)"
    if "\<not> connect_fault env (connects w)" "map_of (store w) ''api_data'' = Some rows"
       "\<not> execute_fault env (inserts w) ''api_data'' ?row"
  proof -
    have "save_to_database env ''api_data'' ?row ?w1 =
            (Inr (), ?w1\<lparr>connects := Suc (connects ?w1), inserts := Suc (inserts ?w1),
               store := AList.update ''api_data'' (rows @ [\<lparr>row_id = next_id rows, cells = ?row\<rparr>]) (store ?w1),
               log := log ?w1 @ [LogInfo (''Saved data to '' @ ''api_data'' @ '' table'')]\<rparr>)"
      by (rule save_to_database_ok) (use that in simp_all)
    then show ?thesis
      by (simp add: st update_conv')
  qed
  have dj: "map_of ?row ''data_json'' = Some (PyStr (json_dumps env data))"
    by (simp add: api_data_def)
  show ?thesis
    unfolding Let_def using st ok dj by blast
qed

theorem fetch_from_api_record_witness:
  "http_get demo_env (length (requests fresh_world)) ''https://restcountries.com/v3.1/all'' None
     = Response 200 ''[1,2]''
   \<and> \<not> (400 \<le> (200::nat) \<and> (200::nat) < 600)
   \<and> json_loads demo_env ''[1,2]'' = Some (JArr [JInt 1, JInt 2])
   \<and> map_of (store (snd (fetch_from_api demo_env ''https://restcountries.com/v3.1/all'' None
                            fresh_world))) ''api_data''
       = Some [\<lparr>row_id = 1,
                 cells = [(''endpoint'', PyStr ''https://restcountries.com/v3.1/all''),
                          (''data_type'', PyStr ''json''),
                          (''data_json'', PyStr ''[1, 2]''),
                          (''timestamp'', PyStr ''2024-01-01T00:00:00.0'')]\<rparr>]"
proof -
  have h1: "http_get demo_env (length (requests fresh_world)) ''https://restcountries.com/v3.1/all'' None
              = Response 200 ''[1,2]''"
    by (simp add: demo_env_def)
  have h2: "\<not> (400 \<le> (200::nat) \<and> (200::nat) < 600)"
    by simp
  have h3: "json_loads demo_env ''[1,2]'' = Some (JArr [JInt 1, JInt 2])"
    by code_simp
  have d: "api_data demo_env ''https://restcountries.com/v3.1/all'' (JArr [JInt 1, JInt 2])
             (isoformat demo_env (ticks fresh_world))
           = [(''endpoint'', PyStr ''https://restcountries.com/v3.1/all''),
              (''data_type'', PyStr ''json''),
              (''data_json'', PyStr ''[1, 2]''),
              (''timestamp'', PyStr ''2024-01-01T00:00:00.0'')]"
    by code_simp
  have c: "\<not> connect_fault demo_env (connects fresh_world)"
    and x: "\<And>d. \<not> execute_fault demo_env (inserts fresh_world) ''api_data'' d"
    by (simp_all add: demo_env_def)
  have m: "map_of (store fresh_world) ''api_data'' = Some []"
    by (simp add: fresh_world_eq)
  have r: "map_of (store (snd (fetch_from_api demo_env ''https://restcountries.com/v3.1/all'' None
                                 fresh_world))) ''api_data''
             = Some ([] @ [\<lparr>row_id = next_id [],
                   cells = api_data demo_env ''https://restcountries.com/v3.1/all'' (JArr [JInt 1, JInt 2])
                             (isoformat demo_env (ticks fresh_world))\<rparr>])"
    using fetch_from_api_record [OF h1 h2 h3, of "[]"] c x m unfolding Let_def by blast
  show ?thesis
    using h1 h2 h3 r unfolding d by (simp add: next_id_def)
qed

text \<open>
  C1 as stated fails: the body \<open>[1,2]\<close> is stored as \<open>[1, 2]\<close>, which is not the text
  that was received.
\<close>

theorem fetch_from_api_not_verbatim:
  "http_get demo_env (length (requests fresh_world)) ''https://restcountries.com/v3.1/all'' None
     = Response 200 ''[1,2]''
   \<and> map_of (store (snd (fetch_from_api demo_env ''https://restcountries.com/v3.1/all'' None
                            fresh_world))) ''api_data''
       = Some [\<lparr>row_id = 1,
                 cells = [(''endpoint'', PyStr ''https://restcountries.com/v3.1/all''),
                          (''data_type'', PyStr ''json''),
                          (''data_json'', PyStr ''[1, 2]''),
                          (''timestamp'', PyStr ''2024-01-01T00:00:00.0'')]\<rparr>]
   \<and> ''[1, 2]'' \<noteq> ''[1,2]''"
  by code_simp


subsection \<open>A failed archive write\<close>

text \<open>
  C6. For a page and for an API document alike: when the fetch, the parse and the
  insert have succeeded and opening the archive file fails, the call is reported failed (it
  returns \<open>None\<close> and logs an error), no file is written, and the row that
  \<open>save_to_database\<close> inserted is still in the table: nothing rolls it back.
\<close>

theorem archive_failure_keeps_row:
  "(http_get env (length (requests w)) url None = Response status body
      \<and> \<not> (400 \<le> status \<and> status < 600)
      \<and> html_parser env body = Some soup
      \<and> \<not> connect_fault env (connects w)
      \<and> map_of (store w) ''web_data'' = Some rows
      \<and> \<not> execute_fault env (inserts w) ''web_data''
            (page_data url soup (isoformat env (ticks w)))
      \<and> open_fault env (opens w) (''webpage_'' @ strftime env (Suc (ticks w)) @ ''.json'')
    \<longrightarrow> fst (scrape_website env url w) = None
        \<and> map_of (store (snd (scrape_website env url w))) ''web_data''
            = Some (rows @ [\<lparr>row_id = next_id rows,
                 cells = page_data url soup (isoformat env (ticks w))\<rparr>])
        \<and> files (snd (scrape_website env url w)) = files w
        \<and> log (snd (scrape_website env url w))
            = log w @ [LogInfo ''Saved data to web_data table'',
                       LogError (''Error scraping '' @ url @ '': '') OSError])
   \<and> (http_get env (length (requests w)) endpoint params = Response status' body'
      \<and> \<not> (400 \<le> status' \<and> status' < 600)
      \<and> json_loads env body' = Some data
      \<and> \<not> connect_fault env (connects w)
      \<and> map_of (store w) ''api_data'' = Some rows'
      \<and> \<not> execute_fault env (inserts w) ''api_data''
            (api_data env endpoint data (isoformat env (ticks w)))
      \<and> open_fault env (opens w) (''api_'' @ strftime env (Suc (ticks w)) @ ''.json'')
    \<longrightarrow> fst (fetch_from_api env endpoint params w) = None
        \<and> map_of (store (snd (fetch_from_api env endpoint params w))) ''api_data''
            = Some (rows' @ [\<lparr>row_id = next_id rows',
                 cells = api_data env endpoint data (isoformat env (ticks w))\<rparr>])
        \<and> files (snd (fetch_from_api env endpoint params w)) = files w
        \<and> log (snd (fetch_from_api env endpoint params w))
            = log w @ [LogInfo ''Saved data to api_data table'',
                       LogError (''Error fetching from API '' @ endpoint @ '': '') OSError])"
proof (intro conjI impI; elim conjE)
  assume "http_get env (length (requests w)) url None = Response status body"
    "\<not> (400 \<le> status \<and> status < 600)"
    "html_parser env body = Some soup"
    "\<not> connect_fault env (connects w)"
    "map_of (store w) ''web_data'' = Some rows"
    "\<not> execute_fault env (inserts w) ''web_data''
            (page_data url soup (isoformat env (ticks w)))"
    "open_fault env (opens w) (''webpage_'' @ strftime env (Suc (ticks w)) @ ''.json'')"
  then have "scrape_website env url w =
      (None, w\<lparr>requests := requests w @ [url], ticks := Suc (Suc (ticks w)),
                connects := Suc (connects w), inserts := Suc (inserts w),
                store := AList.update ''web_data''
                   (rows @ [\<lparr>row_id = next_id rows,
                      cells = page_data url soup (isoformat env (ticks w))\<rparr>])
                   (store w),
                opens := Suc (opens w),
                log := log w @ [LogInfo ''Saved data to web_data table'',
                       LogError (''Error scraping '' @ url @ '': '') OSError]\<rparr>)"
    by (auto simp: scrape_website_def scrape_website_try_def then_do_def requests_get_def
        raise_for_status_def now_def save_to_database_def write_file_def logger_def Let_def)
  then show "fst (scrape_website env url w) = None"
    "map_of (store (snd (scrape_website env url w))) ''web_data''
            = Some (rows @ [\<lparr>row_id = next_id rows,
                 cells = page_data url soup (isoformat env (ticks w))\<rparr>])"
    "files (snd (scrape_website env url w)) = files w"
    "log (snd (scrape_website env url w))
            = log w @ [LogInfo ''Saved data to web_data table'',
                       LogError (''Error scraping '' @ url @ '': '') OSError]"
    by (simp_all add: update_conv')
next
  assume "http_get env (length (requests w)) endpoint params = Response status' body'"
    "\<not> (400 \<le> status' \<and> status' < 600)"
    "json_loads env body' = Some data"
    "\<not> connect_fault env (connects w)"
    "map_of (store w) ''api_data'' = Some rows'"
    "\<not> execute_fault env (inserts w) ''api_data''
            (api_data env endpoint data (isoformat env (ticks w)))"
    "open_fault env (opens w) (''api_'' @ strftime env (Suc (ticks w)) @ ''.json'')"
  then have "fetch_from_api env endpoint params w =
      (None, w\<lparr>requests := requests w @ [endpoint], ticks := Suc (Suc (ticks w)),
                connects := Suc (connects w), inserts := Suc (inserts w),
                store := AList.update ''api_data''
                   (rows' @ [\<lparr>row_id = next_id rows',
                      cells = api_data env endpoint data (isoformat env (ticks w))\<rparr>])
                   (store w),
                opens := Suc (opens w),
                log := log w @ [LogInfo ''Saved data to api_data table'',
                       LogError (''Error fetching from API '' @ endpoint @ '': '') OSError]\<rparr>)"
    by (auto simp: fetch_from_api_def fetch_from_api_try_def then_do_def requests_get_def
        raise_for_status_def now_def save_to_database_def write_file_def logger_def Let_def)
  then show "fst (fetch_from_api env endpoint params w) = None"
    "map_of (store (snd (fetch_from_api env endpoint params w))) ''api_data''
            = Some (rows' @ [\<lparr>row_id = next_id rows',
                 cells = api_data env endpoint data (isoformat env (ticks w))\<rparr>])"
    "files (snd (fetch_from_api env endpoint params w)) = files w"
    "log (snd (fetch_from_api env endpoint params w))
            = log w @ [LogInfo ''Saved data to api_data table'',
                       LogError (''Error fetching from API '' @ endpoint @ '': '') OSError]"
    by (simp_all add: update_conv')
qed

theorem archive_failure_keeps_row_witness:
  "http_get faulty_disk_env (length (requests fresh_world)) ''https://www.data.gov'' None
     = Response 200 demo_html
   \<and> open_fault faulty_disk_env (opens fresh_world) ''webpage_20240101_000000.json''
   \<and> open_fault faulty_disk_env (opens fresh_world) ''api_20240101_000000.json''
   \<and> map_of (store (snd (scrape_website faulty_disk_env ''https://www.data.gov'' fresh_world))) ''web_data''
     = Some [\<lparr>row_id = 1,
               cells = [(''url'', PyStr ''https://www.data.gov''),
                        (''title'', PyStr ''Hello''),
                        (''content'', PyStr ''Hello Hi there''),
                        (''timestamp'', PyStr ''2024-01-01T00:00:00.0''),
                        (''source'', PyStr ''web_scraping'')]\<rparr>]
   \<and> fst (scrape_website faulty_disk_env ''https://www.data.gov'' fresh_world) = None
   \<and> files (snd (scrape_website faulty_disk_env ''https://www.data.gov'' fresh_world)) = []
   \<and> map_of (store (snd (fetch_from_api faulty_disk_env ''https://restcountries.com/v3.1/all'' None
                            fresh_world))) ''api_data''
     = Some [\<lparr>row_id = 1,
               cells = [(''endpoint'', PyStr ''https://restcountries.com/v3.1/all''),
                        (''data_type'', PyStr ''json''),
                        (''data_json'', PyStr ''[1, 2]''),
                        (''timestamp'', PyStr ''2024-01-01T00:00:00.0'')]\<rparr>]
   \<and> fst (fetch_from_api faulty_disk_env ''https://restcountries.com/v3.1/all'' None fresh_world) = None"
proof -
  have p1: "http_get faulty_disk_env (length (requests fresh_world)) ''https://www.data.gov'' None
              = Response 200 demo_html"
    and a1: "http_get faulty_disk_env (length (requests fresh_world))
               ''https://restcountries.com/v3.1/all'' None = Response 200 ''[1,2]''"
    by (simp_all add: faulty_disk_env_def demo_env_def)
  have s: "\<not> (400 \<le> (200::nat) \<and> (200::nat) < 600)"
    by simp
  have hp: "html_parser faulty_disk_env demo_html = Some demo_page"
    by (simp add: faulty_disk_env_def demo_env_def)
  have j: "json_loads faulty_disk_env ''[1,2]'' = Some (JArr [JInt 1, JInt 2])"
    by code_simp
  have c: "\<not> connect_fault faulty_disk_env (connects fresh_world)"
    and x: "\<And>t d. \<not> execute_fault faulty_disk_env (inserts fresh_world) t d"
    and f: "\<And>n. open_fault faulty_disk_env (opens fresh_world) n"
    by (simp_all add: faulty_disk_env_def demo_env_def)
  have m: "map_of (store fresh_world) ''web_data'' = Some []"
    "map_of (store fresh_world) ''api_data'' = Some []"
    "files fresh_world = []"
    by (simp_all add: fresh_world_eq)
  have d: "page_data ''https://www.data.gov'' demo_page
             (isoformat faulty_disk_env (ticks fresh_world))
           = [(''url'', PyStr ''https://www.data.gov''),
              (''title'', PyStr ''Hello''),
              (''content'', PyStr ''Hello Hi there''),
              (''timestamp'', PyStr ''2024-01-01T00:00:00.0''),
              (''source'', PyStr ''web_scraping'')]"
    by code_simp
  have d': "api_data faulty_disk_env ''https://restcountries.com/v3.1/all'' (JArr [JInt 1, JInt 2])
             (isoformat faulty_disk_env (ticks fresh_world))
           = [(''endpoint'', PyStr ''https://restcountries.com/v3.1/all''),
              (''data_type'', PyStr ''json''),
              (''data_json'', PyStr ''[1, 2]''),
              (''timestamp'', PyStr ''2024-01-01T00:00:00.0'')]"
    by code_simp
  have r: "fst (scrape_website faulty_disk_env ''https://www.data.gov'' fresh_world) = None
        \<and> map_of (store (snd (scrape_website faulty_disk_env ''https://www.data.gov'' fresh_world))) ''web_data''
            = Some ([] @ [\<lparr>row_id = next_id [],
                 cells = page_data ''https://www.data.gov'' demo_page
                   (isoformat faulty_disk_env (ticks fresh_world))\<rparr>])
        \<and> files (snd (scrape_website faulty_disk_env ''https://www.data.gov'' fresh_world)) = files fresh_world
        \<and> fst (fetch_from_api faulty_disk_env ''https://restcountries.com/v3.1/all'' None fresh_world) = None
        \<and> map_of (store (snd (fetch_from_api faulty_disk_env ''https://restcountries.com/v3.1/all'' None fresh_world))) ''api_data''
            = Some ([] @ [\<lparr>row_id = next_id [],
                 cells = api_data faulty_disk_env ''https://restcountries.com/v3.1/all'' (JArr [JInt 1, JInt 2])
                   (isoformat faulty_disk_env (ticks fresh_world))\<rparr>])"
    using archive_failure_keeps_row [where env = faulty_disk_env and w = fresh_world
        and url = "''https://www.data.gov''" and status = 200 and body = demo_html
        and soup = demo_page
        and rows = "[]" and endpoint = "''https://restcountries.com/v3.1/all''" and params = None
        and status' = 200 and body' = "''[1,2]''" and data = "JArr [JInt 1, JInt 2]"
        and rows' = "[]"]
      p1 a1 s hp j c x f m(1,2)
    by blast
  show ?thesis
    using p1 f r unfolding d d' m by (simp add: next_id_def)
qed


subsection \<open>What the collector appends\<close>

lemma appends_only_same: "store w' = store w \<Longrightarrow> appends_only good w w'"
  unfolding appends_only_def appended_rows_def
  by (intro allI exI [of _ "[]"]) (simp add: option.map_ident)

lemma appends_only_trans:
  assumes "appends_only good w w'" and "appends_only good w' w''"
  shows "appends_only good w w''"
  unfolding appends_only_def
proof
  fix t
  from assms(1) obtain n1 where 1: "appended_rows w w' t n1" "\<forall>r\<in>set n1. good t r"
    unfolding appends_only_def by blast
  from assms(2) obtain n2 where 2: "appended_rows w' w'' t n2" "\<forall>r\<in>set n2. good t r"
    unfolding appends_only_def by blast
  have "appended_rows w w'' t (n1 @ n2)"
    using 1(1) 2(1) unfolding appended_rows_def by (cases "map_of (store w) t") simp_all
  moreover have "\<forall>r\<in>set (n1 @ n2). good t r"
    using 1(2) 2(2) by auto
  ultimately show "\<exists>new. appended_rows w w'' t new \<and> (\<forall>r\<in>set new. good t r)"
    by blast
qed

lemma appends_only_store:
  "appends_only good w w' \<Longrightarrow> store v = store w \<Longrightarrow> store v' = store w' \<Longrightarrow> appends_only good v v'"
  by (simp add: appends_only_def appended_rows_def)

lemma save_to_database_appends:
  assumes "\<And>i. good t \<lparr>row_id = i, cells = d\<rparr>"
  shows "appends_only good w (snd (save_to_database env t d w))"
proof (cases "connect_fault env (connects w) \<or> map_of (store w) t = None
              \<or> execute_fault env (inserts w) t d")
  case True
  then have "store (snd (save_to_database env t d w)) = store w"
    by (auto simp: save_to_database_def logger_def Let_def split: option.splits)
  then show ?thesis by (rule appends_only_same)
next
  case False
  then obtain rows where r: "map_of (store w) t = Some rows" by auto
  with False have s: "store (snd (save_to_database env t d w))
      = AList.update t (rows @ [\<lparr>row_id = next_id rows, cells = d\<rparr>]) (store w)"
    by (simp add: save_to_database_def logger_def Let_def)
  show ?thesis
    unfolding appends_only_def appended_rows_def
  proof
    fix t'
    show "\<exists>new. map_of (store (snd (save_to_database env t d w))) t'
                  = map_option (\<lambda>rows. rows @ new) (map_of (store w) t')
                \<and> (\<forall>r\<in>set new. good t' r)"
    proof (cases "t' = t")
      case True
      then show ?thesis
        using r assms
        by (intro exI [of _ "[\<lparr>row_id = next_id rows, cells = d\<rparr>]"]) (simp add: s update_conv')
    next
      case False
      then show ?thesis
        by (intro exI [of _ "[]"]) (simp add: s update_conv' option.map_ident)
    qed
  qed
qed

lemma write_file_store: "store (snd (write_file env f c w)) = store w"
  by (simp add: write_file_def Let_def)

lemma scrape_website_appends:
  assumes "builders_good good"
  shows "appends_only good w (snd (scrape_website env url w))"
proof (cases "http_get env (length (requests w)) url None")
  case (Failed e)
  then have "store (snd (scrape_website env url w)) = store w"
    by (simp add: scrape_website_def scrape_website_try_def then_do_def requests_get_def logger_def)
  then show ?thesis by (rule appends_only_same)
next
  case (Response status body)
  show ?thesis
  proof (cases "(400 \<le> status \<and> status < 600) \<or> html_parser env body = None")
    case True
    with Response have "store (snd (scrape_website env url w)) = store w"
      by (auto simp: scrape_website_def scrape_website_try_def then_do_def requests_get_def
          raise_for_status_def logger_def)
    then show ?thesis by (rule appends_only_same)
  next
    case False
    then obtain soup where p: "html_parser env body = Some soup"
      and s: "\<not> (400 \<le> status \<and> status < 600)"
      by auto
    let ?w1 = "w\<lparr>requests := requests w @ [url], ticks := Suc (ticks w)\<rparr>"
    let ?d = "page_data url soup (isoformat env (ticks w))"
    have "appends_only good ?w1 (snd (save_to_database env ''web_data'' ?d ?w1))"
      using assms by (intro save_to_database_appends) (simp add: builders_good_def)
    then show ?thesis
      by (rule appends_only_store) (simp_all add: scrape_website_store [OF Response s p])
  qed
qed

lemma fetch_from_api_appends:
  assumes "builders_good good"
  shows "appends_only good w (snd (fetch_from_api env endpoint params w))"
proof (cases "http_get env (length (requests w)) endpoint params")
  case (Failed e)
  then have "store (snd (fetch_from_api env endpoint params w)) = store w"
    by (simp add: fetch_from_api_def fetch_from_api_try_def then_do_def requests_get_def logger_def)
  then show ?thesis by (rule appends_only_same)
next
  case (Response status body)
  show ?thesis
  proof (cases "(400 \<le> status \<and> status < 600) \<or> json_loads env body = None")
    case True
    with Response have "store (snd (fetch_from_api env endpoint params w)) = store w"
      by (auto simp: fetch_from_api_def fetch_from_api_try_def then_do_def requests_get_def
          raise_for_status_def logger_def)
    then show ?thesis by (rule appends_only_same)
  next
    case False
    then obtain data where j: "json_loads env body = Some data" and s: "\<not> (400 \<le> status \<and> status < 600)"
      by auto
    let ?w1 = "w\<lparr>requests := requests w @ [endpoint], ticks := Suc (ticks w)\<rparr>"
    let ?d = "api_data env endpoint data (isoformat env (ticks w))"
    have "appends_only good ?w1 (snd (save_to_database env ''api_data'' ?d ?w1))"
      using assms by (intro save_to_database_appends) (simp add: builders_good_def)
    then show ?thesis
      by (rule appends_only_store) (simp_all add: fetch_from_api_store [OF Response s j])
  qed
qed

lemma save_items_appends:
  assumes "builders_good good"
  shows "appends_only good w (snd (save_items env feed_url items w))"
proof (induction items arbitrary: w)
  case Nil
  show ?case by (simp add: appends_only_same)
next
  case (Cons item rest)
  let ?w1 = "w\<lparr>ticks := Suc (ticks w)\<rparr>"
  let ?d = "news_data feed_url item (isoformat env (ticks w))"
  obtain r w2 where sv: "save_to_database env ''news_articles'' ?d ?w1 = (r, w2)"
    by (cases "save_to_database env ''news_articles'' ?d ?w1")
  have "appends_only good ?w1 (snd (save_to_database env ''news_articles'' ?d ?w1))"
    using assms by (intro save_to_database_appends) (simp add: builders_good_def)
  then have a: "appends_only good w w2"
    by (rule appends_only_store) (simp_all add: sv)
  show ?case
  proof (cases r)
    case (Inl e)
    then show ?thesis using a sv by (simp add: now_def)
  next
    case (Inr u)
    then have "snd (save_items env feed_url (item # rest) w) = snd (save_items env feed_url rest w2)"
      using sv by (simp add: now_def)
    then show ?thesis
      using appends_only_trans [OF a Cons.IH [of w2]] by simp
  qed
qed

lemma parse_rss_feed_store:
  "store (parse_rss_feed env feed_url w) = store w
   \<or> (\<exists>items w1. store w1 = store w
        \<and> store (parse_rss_feed env feed_url w) = store (snd (save_items env feed_url items w1)))"
proof (cases "http_get env (length (requests w)) feed_url None")
  case (Failed e)
  then show ?thesis
    by (simp add: parse_rss_feed_def parse_rss_feed_try_def then_do_def requests_get_def logger_def)
next
  case (Response status body)
  show ?thesis
  proof (cases "(400 \<le> status \<and> status < 600) \<or> xml_parser env body = None")
    case True
    with Response show ?thesis
      by (auto simp: parse_rss_feed_def parse_rss_feed_try_def then_do_def requests_get_def
          raise_for_status_def logger_def)
  next
    case False
    then obtain soup where x: "xml_parser env body = Some soup" and s: "\<not> (400 \<le> status \<and> status < 600)"
      by auto
    let ?w1 = "w\<lparr>requests := requests w @ [feed_url]\<rparr>"
    have "store (parse_rss_feed env feed_url w)
          = store (snd (save_items env feed_url (find_all [''item''] soup) ?w1))"
      using Response x s
      by (cases "save_items env feed_url (find_all [''item''] soup) ?w1";
          cases "fst (save_items env feed_url (find_all [''item''] soup) ?w1)")
         (auto simp: parse_rss_feed_def parse_rss_feed_try_def then_do_def requests_get_def
          raise_for_status_def logger_def)
    then show ?thesis
      by (intro disjI2 exI [of _ "find_all [''item''] soup"] exI [of _ ?w1]) simp
  qed
qed

lemma parse_rss_feed_appends:
  assumes "builders_good good"
  shows "appends_only good w (parse_rss_feed env feed_url w)"
  using parse_rss_feed_store [of env feed_url w]
proof (elim disjE exE conjE)
  assume "store (parse_rss_feed env feed_url w) = store w"
  then show ?thesis by (rule appends_only_same)
next
  fix items w1
  assume 1: "store w1 = store w"
    and 2: "store (parse_rss_feed env feed_url w) = store (snd (save_items env feed_url items w1))"
  show ?thesis
    by (rule appends_only_store [OF save_items_appends [OF assms, of w1 env feed_url items]])
       (simp_all add: 1 2)
qed


lemma logger_store: "store (logger e w) = store w"
  by (simp add: logger_def)

lemma news_loop_appends:
  assumes "builders_good good"
  shows "appends_only good w (news_loop env sources w)"
proof (induction sources arbitrary: w)
  case Nil
  show ?case by (simp add: appends_only_same)
next
  case (Cons source rest)
  let ?w1 = "if contains ''rss'' source then parse_rss_feed env source w
             else snd (fetch_from_api env source None w)"
  have "appends_only good w ?w1"
    by (simp add: parse_rss_feed_appends [OF assms] fetch_from_api_appends [OF assms])
  from appends_only_trans [OF this Cons.IH [of ?w1]] show ?case by simp
qed

lemma datasets_loop_appends:
  assumes "builders_good good"
  shows "appends_only good w (datasets_loop env urls w)"
proof (induction urls arbitrary: w)
  case Nil
  show ?case by (simp add: appends_only_same)
next
  case (Cons u rest)
  let ?w1 = "logger (LogInfo (''Collected dataset info from '' @ u)) (snd (scrape_website env u w))"
  have "appends_only good w ?w1"
    by (rule appends_only_store [OF scrape_website_appends [OF assms, of w env u]])
       (simp_all add: logger_store)
  from appends_only_trans [OF this Cons.IH [of ?w1]] show ?case by simp
qed

lemma government_loop_appends:
  assumes "builders_good good"
  shows "appends_only good w (government_loop env urls w)"
proof (induction urls arbitrary: w)
  case Nil
  show ?case by (simp add: appends_only_same)
next
  case (Cons u rest)
  let ?w1 = "logger (LogInfo (''Collected government data from '' @ u)) (snd (scrape_website env u w))"
  have "appends_only good w ?w1"
    by (rule appends_only_store [OF scrape_website_appends [OF assms, of w env u]])
       (simp_all add: logger_store)
  from appends_only_trans [OF this Cons.IH [of ?w1]] show ?case by simp
qed

lemma run_task_appends:
  assumes "builders_good good"
  shows "appends_only good w (run_task env t w)"
  by (cases t)
     (simp_all add: scrape_website_appends [OF assms] fetch_from_api_appends [OF assms]
        news_loop_appends [OF assms] datasets_loop_appends [OF assms]
        government_loop_appends [OF assms] collect_news_data_def collect_public_datasets_def
        collect_government_data_def)

lemma pool_appends:
  assumes "builders_good good"
  shows "appends_only good w (fold (run_task env) order w)"
proof (induction order arbitrary: w)
  case Nil
  show ?case by (simp add: appends_only_same)
next
  case (Cons t rest)
  from appends_only_trans [OF run_task_appends [OF assms, of w env t] Cons.IH [of "run_task env t w"]]
  show ?case by simp
qed

lemma appends_onlyD:
  "appends_only good w w' \<Longrightarrow> \<exists>new. appended_rows w w' t new \<and> (\<forall>r\<in>set new. good t r)"
  by (simp add: appends_only_def)

subsection \<open>The source of a page row\<close>

lemma web_source_good:
  "builders_good (\<lambda>t r. t = ''web_data'' \<longrightarrow> map_of (cells r) ''source'' = Some (PyStr ''web_scraping''))"
  by (simp add: builders_good_def page_data_def)


text \<open>
  C9. Every row that \<open>scrape_website\<close> appends to \<open>web_data\<close> has the source
  \<open>'web_scraping'\<close>, whatever the address; so has every row appended by the loop over
  the public datasets, by the loop over the government sources, and by any run of
  the pool's tasks in any order. The source cell therefore does not tell which group
  asked for the page.
\<close>

theorem web_rows_source:
  "(\<exists>new. appended_rows w (snd (scrape_website env url w)) ''web_data'' new
        \<and> (\<forall>r\<in>set new. map_of (cells r) ''source'' = Some (PyStr ''web_scraping'')))
   \<and> (\<exists>new. appended_rows w (collect_public_datasets env w) ''web_data'' new
        \<and> (\<forall>r\<in>set new. map_of (cells r) ''source'' = Some (PyStr ''web_scraping'')))
   \<and> (\<exists>new. appended_rows w (collect_government_data env w) ''web_data'' new
        \<and> (\<forall>r\<in>set new. map_of (cells r) ''source'' = Some (PyStr ''web_scraping'')))
   \<and> (\<exists>new. appended_rows w (fold (run_task env) order w) ''web_data'' new
        \<and> (\<forall>r\<in>set new. map_of (cells r) ''source'' = Some (PyStr ''web_scraping'')))"
  using appends_onlyD [OF scrape_website_appends [OF web_source_good], of w env url "''web_data''"]
    appends_onlyD [OF datasets_loop_appends [OF web_source_good], of w env public_datasets "''web_data''"]
    appends_onlyD [OF government_loop_appends [OF web_source_good], of w env government_sources "''web_data''"]
    appends_onlyD [OF pool_appends [OF web_source_good], of w env order "''web_data''"]
  by (simp add: collect_public_datasets_def collect_government_data_def)

lemma gov_demo:
  "map_of (store (collect_government_data demo_env fresh_world)) ''web_data''
     = Some [\<lparr>row_id = 1,
               cells = [(''url'', PyStr ''https://www.data.gov''),
                        (''title'', PyStr ''Hello''),
                        (''content'', PyStr ''Hello Hi there''),
                        (''timestamp'', PyStr ''2024-01-01T00:00:00.0''),
                        (''source'', PyStr ''web_scraping'')]\<rparr>]"
  by code_simp


theorem web_rows_source_witness:
  "\<exists>new. appended_rows fresh_world (collect_government_data demo_env fresh_world) ''web_data'' new
     \<and> (\<forall>r\<in>set new. map_of (cells r) ''source'' = Some (PyStr ''web_scraping''))
     \<and> map cells new = [[(''url'', PyStr ''https://www.data.gov''),
                        (''title'', PyStr ''Hello''),
                        (''content'', PyStr ''Hello Hi there''),
                        (''timestamp'', PyStr ''2024-01-01T00:00:00.0''),
                        (''source'', PyStr ''web_scraping'')]]"
proof -
  from web_rows_source [of fresh_world demo_env "[]" "[]"]
  obtain new where n: "appended_rows fresh_world (collect_government_data demo_env fresh_world) ''web_data'' new"
    "\<forall>r\<in>set new. map_of (cells r) ''source'' = Some (PyStr ''web_scraping'')"
    by blast
  from n(1) have "new = [\<lparr>row_id = 1,
               cells = [(''url'', PyStr ''https://www.data.gov''),
                        (''title'', PyStr ''Hello''),
                        (''content'', PyStr ''Hello Hi there''),
                        (''timestamp'', PyStr ''2024-01-01T00:00:00.0''),
                        (''source'', PyStr ''web_scraping'')]\<rparr>]"
    unfolding appended_rows_def gov_demo by (simp add: fresh_world_eq)
  with n show ?thesis by auto
qed

subsection \<open>The authors of a news row\<close>

lemma news_authors_good:
  "builders_good (\<lambda>t r. t = ''news_articles'' \<longrightarrow> map_of (cells r) ''authors'' = Some (PyStr []))"
  by (simp add: builders_good_def news_data_def)


text \<open>
  C10. Every row that \<open>parse_rss_feed\<close> appends to \<open>news_articles\<close> has the empty string
  as its authors, whatever the feed holds; so has every row appended by
  \<open>collect_news_data\<close> and by any run of the pool's tasks.
\<close>

theorem news_rows_authors:
  "(\<exists>new. appended_rows w (parse_rss_feed env feed_url w) ''news_articles'' new
        \<and> (\<forall>r\<in>set new. map_of (cells r) ''authors'' = Some (PyStr [])))
   \<and> (\<exists>new. appended_rows w (collect_news_data env w) ''news_articles'' new
        \<and> (\<forall>r\<in>set new. map_of (cells r) ''authors'' = Some (PyStr [])))
   \<and> (\<exists>new. appended_rows w (fold (run_task env) order w) ''news_articles'' new
        \<and> (\<forall>r\<in>set new. map_of (cells r) ''authors'' = Some (PyStr [])))"
  using appends_onlyD [OF parse_rss_feed_appends [OF news_authors_good], of w env feed_url "''news_articles''"]
    appends_onlyD [OF news_loop_appends [OF news_authors_good], of w env news_sources "''news_articles''"]
    appends_onlyD [OF pool_appends [OF news_authors_good], of w env order "''news_articles''"]
  by (simp add: collect_news_data_def)

lemma news_demo:
  "map_of (store (parse_rss_feed demo_env ''http://rss.cnn.com/rss/cnn_world.rss'' fresh_world)) ''news_articles''
     = Some [\<lparr>row_id = 1,
          cells =
            [(''title'', PyStr ''A''), (''content'', PyStr []),
             (''source'', PyStr ''http://rss.cnn.com/rss/cnn_world.rss''),
             (''published_date'', PyStr ''Mon''),
             (''url'', PyStr ''http://a''), (''authors'', PyStr []),
             (''timestamp'', PyStr ''2024-01-01T00:00:00.0'')]\<rparr>,
       \<lparr>row_id = 2,
          cells =
            [(''title'', PyStr ''No title''), (''content'', PyStr ''d''),
             (''source'', PyStr ''http://rss.cnn.com/rss/cnn_world.rss''),
             (''published_date'', PyStr []), (''url'', PyStr []),
             (''authors'', PyStr []),
             (''timestamp'', PyStr ''2024-01-01T00:00:00.1'')]\<rparr>]"
  by code_simp


theorem news_rows_authors_witness:
  "\<exists>new. appended_rows fresh_world
            (parse_rss_feed demo_env ''http://rss.cnn.com/rss/cnn_world.rss'' fresh_world)
            ''news_articles'' new
     \<and> (\<forall>r\<in>set new. map_of (cells r) ''authors'' = Some (PyStr []))
     \<and> length new = 2"
proof -
  from news_rows_authors [of fresh_world demo_env "''http://rss.cnn.com/rss/cnn_world.rss''" "[]"]
  obtain new where n: "appended_rows fresh_world
            (parse_rss_feed demo_env ''http://rss.cnn.com/rss/cnn_world.rss'' fresh_world)
            ''news_articles'' new"
    "\<forall>r\<in>set new. map_of (cells r) ''authors'' = Some (PyStr [])"
    by blast
  from n(1) have "length new = 2"
    unfolding appended_rows_def news_demo by (auto simp: fresh_world_eq)
  with n show ?thesis by auto
qed


subsection \<open>The rows of a feed\<close>

lemma save_to_database_counters:
  "\<not> connect_fault env (connects w) \<Longrightarrow>
     fst (save_to_database env t d w) = Inr ()
     \<and> connects (snd (save_to_database env t d w)) = Suc (connects w)
     \<and> inserts (snd (save_to_database env t d w)) = Suc (inserts w)
     \<and> ticks (snd (save_to_database env t d w)) = ticks w"
  by (simp add: save_to_database_def logger_def Let_def split: option.splits)

lemma save_to_database_row:
  assumes "\<not> connect_fault env (connects w)" and "map_of (store w) t = Some rows"
  shows "map_of (store (snd (save_to_database env t d w))) t
           = Some (rows @ (if execute_fault env (inserts w) t d then []
                             else [\<lparr>row_id = next_id rows, cells = d\<rparr>]))
         \<and> (\<forall>t'. t' \<noteq> t \<longrightarrow>
               map_of (store (snd (save_to_database env t d w))) t' = map_of (store w) t')
         \<and> log (snd (save_to_database env t d w))
             = log w @ [if execute_fault env (inserts w) t d
                        then LogError ''Error saving to database: '' OperationalError
                        else LogInfo (''Saved data to '' @ t @ '' table'')]"
  using assms by (simp add: save_to_database_def logger_def Let_def update_conv')

lemma save_items_rows:
  assumes "\<forall>i<length items. \<not> connect_fault env (connects w + i)"
    and "map_of (store w) ''news_articles'' = Some rows"
  shows "\<exists>w' rows' entries. save_items env feed_url items w = (Inr (), w')
           \<and> map_of (store w') ''news_articles'' = Some (rows @ rows')
           \<and> map cells rows' = accepted_news env feed_url (ticks w) (inserts w) items
           \<and> (\<forall>t. t \<noteq> ''news_articles'' \<longrightarrow> map_of (store w') t = map_of (store w) t)
           \<and> inserts w' = inserts w + length items
           \<and> log w' = log w @ entries
           \<and> length entries = length items
           \<and> (\<forall>e\<in>set entries. e = LogInfo ''Saved data to news_articles table''
                  \<or> e = LogError ''Error saving to database: '' OperationalError)"
  using assms
proof (induction items arbitrary: w rows)
  case Nil
  then show ?case by simp
next
  case (Cons item rest)
  let ?w1 = "w\<lparr>ticks := Suc (ticks w)\<rparr>"
  let ?d = "news_data feed_url item (isoformat env (ticks w))"
  obtain r0 w2 where sv0: "save_to_database env ''news_articles'' ?d ?w1 = (r0, w2)"
    by (cases "save_to_database env ''news_articles'' ?d ?w1")
  let ?new = "if execute_fault env (inserts w) ''news_articles'' ?d then []
              else [\<lparr>row_id = next_id rows, cells = ?d\<rparr>]"
  let ?entry = "if execute_fault env (inserts w) ''news_articles'' ?d
                then LogError ''Error saving to database: '' OperationalError
                else LogInfo (''Saved data to '' @ ''news_articles'' @ '' table'')"
  have c0: "\<not> connect_fault env (connects ?w1)"
    using Cons.prems(1) by auto
  have m1: "map_of (store ?w1) ''news_articles'' = Some rows"
    using Cons.prems(2) by simp
  from save_to_database_counters [OF c0, of "''news_articles''" ?d]
  have k: "r0 = Inr ()"
    "connects w2 = Suc (connects w)" "inserts w2 = Suc (inserts w)" "ticks w2 = Suc (ticks w)"
    by (simp_all add: sv0)
  from save_to_database_row [OF c0 m1, of ?d]
  have r: "map_of (store w2) ''news_articles'' = Some (rows @ ?new)"
    "\<forall>t'. t' \<noteq> ''news_articles'' \<longrightarrow> map_of (store w2) t' = map_of (store w) t'"
    "log w2 = log w @ [?entry]"
    by (simp_all add: sv0)
  have sv: "save_to_database env ''news_articles'' ?d ?w1 = (Inr (), w2)"
    using k(1) sv0 by simp
  have c: "\<forall>i<length rest. \<not> connect_fault env (connects w2 + i)"
  proof (intro allI impI)
    fix i assume "i < length rest"
    then have "\<not> connect_fault env (connects w + Suc i)"
      using Cons.prems(1) by auto
    then show "\<not> connect_fault env (connects w2 + i)"
      by (simp add: k(2))
  qed
  from Cons.IH [OF c r(1)] obtain w' rows' entries where
    ih: "save_items env feed_url rest w2 = (Inr (), w')"
      "map_of (store w') ''news_articles'' = Some ((rows @ ?new) @ rows')"
      "map cells rows' = accepted_news env feed_url (ticks w2) (inserts w2) rest"
      "\<forall>t. t \<noteq> ''news_articles'' \<longrightarrow> map_of (store w') t = map_of (store w2) t"
      "inserts w' = inserts w2 + length rest"
      "log w' = log w2 @ entries"
      "length entries = length rest"
      "\<forall>e\<in>set entries. e = LogInfo ''Saved data to news_articles table''
                  \<or> e = LogError ''Error saving to database: '' OperationalError"
    by blast
  have 1: "save_items env feed_url (item # rest) w = (Inr (), w')"
    using sv ih(1) by (simp add: now_def)
  have 2: "map_of (store w') ''news_articles'' = Some (rows @ (?new @ rows'))"
    using ih(2) by simp
  have 3: "map cells (?new @ rows')
           = accepted_news env feed_url (ticks w) (inserts w) (item # rest)"
    using ih(3) by (simp add: k)
  have 4: "\<forall>t. t \<noteq> ''news_articles'' \<longrightarrow> map_of (store w') t = map_of (store w) t"
    using ih(4) r(2) by simp
  have 5: "inserts w' = inserts w + length (item # rest)"
    using ih(5) by (simp add: k)
  have 6: "log w' = log w @ (?entry # entries)"
    using ih(6) r(3) by simp
  have 7: "length (?entry # entries) = length (item # rest)"
    using ih(7) by simp
  have 8: "\<forall>e\<in>set (?entry # entries). e = LogInfo ''Saved data to news_articles table''
                  \<or> e = LogError ''Error saving to database: '' OperationalError"
    using ih(8) by simp
  from 1 2 3 4 5 6 7 8 show ?case by blast
qed

lemma accepted_news_all:
  assumes "\<forall>i<length items. \<not> execute_fault env (n + i) ''news_articles''
             (news_data feed_url (items ! i) (isoformat env (t + i)))"
  shows "accepted_news env feed_url t n items
         = map (\<lambda>(k, item). news_data feed_url item (isoformat env k)) (enumerate t items)"
  using assms
proof (induction items arbitrary: t n)
  case Nil
  show ?case by simp
next
  case (Cons item rest)
  have h: "\<not> execute_fault env n ''news_articles'' (news_data feed_url item (isoformat env t))"
    using Cons.prems by auto
  have "\<forall>i<length rest. \<not> execute_fault env (Suc n + i) ''news_articles''
             (news_data feed_url (rest ! i) (isoformat env (Suc t + i)))"
  proof (intro allI impI)
    fix i assume "i < length rest"
    then have "\<not> execute_fault env (n + Suc i) ''news_articles''
             (news_data feed_url ((item # rest) ! Suc i) (isoformat env (t + Suc i)))"
      using Cons.prems by (metis Suc_less_eq length_Cons)
    then show "\<not> execute_fault env (Suc n + i) ''news_articles''
             (news_data feed_url (rest ! i) (isoformat env (Suc t + i)))"
      by simp
  qed
  from Cons.IH [OF this] h show ?case by simp
qed

text \<open>
  C5, as amended. For a feed that was fetched and parsed, when \<open>news_articles\<close> exists
  and each connection of the call opens: there is exactly one insert attempt per
  \<open>item\<close> element, the table gains, in document order, exactly the records of the items
  whose insert is accepted (an item whose insert fails is logged and dropped), so one
  row per item when every insert is accepted; no other table changes, and the feed
  is logged as parsed successfully. A feed without \<open>item\<close> elements leaves the store
  as it was and is logged as parsed successfully, whatever the database would have
  done. The title of a record falls back to \<open>"No title"\<close>, its description,
  publication date and link to the empty string, when the item has no such element.
\<close>

theorem parse_rss_feed_items:
  assumes "http_get env (length (requests w)) feed_url None = Response status body"
    and "\<not> (400 \<le> status \<and> status < 600)"
    and "xml_parser env body = Some soup"
  shows "(let items = find_all [''item''] soup;
              w' = parse_rss_feed env feed_url w
          in ((\<forall>i<length items. \<not> connect_fault env (connects w + i))
               \<and> map_of (store w) ''news_articles'' = Some rows
              \<longrightarrow> (\<exists>rows'. map_of (store w') ''news_articles'' = Some (rows @ rows')
                     \<and> map cells rows'
                         = accepted_news env feed_url (ticks w) (inserts w) items
                     \<and> ((\<forall>i<length items. \<not> execute_fault env (inserts w + i) ''news_articles''
                              (news_data feed_url (items ! i) (isoformat env (ticks w + i))))
                        \<longrightarrow> length rows' = length items
                            \<and> map cells rows'
                                = map (\<lambda>(t, item). news_data feed_url item (isoformat env t))
                                    (enumerate (ticks w) items)))
                  \<and> (\<forall>t. t \<noteq> ''news_articles'' \<longrightarrow> map_of (store w') t = map_of (store w) t)
                  \<and> inserts w' = inserts w + length items
                  \<and> (\<exists>entries. log w' = log w @ entries
                         @ [LogInfo (''Successfully parsed RSS feed from '' @ feed_url)]
                       \<and> length entries = length items
                       \<and> (\<forall>e\<in>set entries. e = LogInfo ''Saved data to news_articles table''
                              \<or> e = LogError ''Error saving to database: '' OperationalError)))
           \<and> (items = []
              \<longrightarrow> store w' = store w
                  \<and> log w' = log w @ [LogInfo (''Successfully parsed RSS feed from '' @ feed_url)])
           \<and> (\<forall>item stamp.
                 map_of (news_data feed_url item stamp) ''title''
                   = Some (PyText (case find_first ''title'' (children item) of
                                    None \<Rightarrow> ustr ''No title''
                                  | Some t \<Rightarrow> get_text [] False (children t)))
               \<and> map_of (news_data feed_url item stamp) ''content''
                   = Some (PyText (case find_first ''description'' (children item) of
                                    None \<Rightarrow> []
                                  | Some t \<Rightarrow> get_text [] False (children t)))
               \<and> map_of (news_data feed_url item stamp) ''published_date''
                   = Some (PyText (case find_first ''pubDate'' (children item) of
                                    None \<Rightarrow> []
                                  | Some t \<Rightarrow> get_text [] False (children t)))
               \<and> map_of (news_data feed_url item stamp) ''url''
                   = Some (PyText (case find_first ''link'' (children item) of
                                    None \<Rightarrow> []
                                  | Some t \<Rightarrow> get_text [] False (children t)))))"
proof -
  let ?items = "find_all [''item''] soup"
  let ?w0 = "w\<lparr>requests := requests w @ [feed_url]\<rparr>"
  let ?done = "LogInfo (''Successfully parsed RSS feed from '' @ feed_url)"
  have body: "parse_rss_feed_try env feed_url w
             = then_do (save_items env feed_url ?items) (\<lambda>_ w1. (Inr (), logger ?done w1)) ?w0"
    using assms
    by (auto simp: parse_rss_feed_try_def then_do_def requests_get_def raise_for_status_def)
  have ok: "(\<exists>rows'. map_of (store (parse_rss_feed env feed_url w)) ''news_articles''
                       = Some (rows @ rows')
                     \<and> map cells rows'
                         = accepted_news env feed_url (ticks w) (inserts w) ?items
                     \<and> ((\<forall>i<length ?items. \<not> execute_fault env (inserts w + i) ''news_articles''
                              (news_data feed_url (?items ! i) (isoformat env (ticks w + i))))
                        \<longrightarrow> length rows' = length ?items
                            \<and> map cells rows'
                                = map (\<lambda>(t, item). news_data feed_url item (isoformat env t))
                                    (enumerate (ticks w) ?items)))
            \<and> (\<forall>t. t \<noteq> ''news_articles'' \<longrightarrow>
                  map_of (store (parse_rss_feed env feed_url w)) t = map_of (store w) t)
            \<and> inserts (parse_rss_feed env feed_url w) = inserts w + length ?items
            \<and> (\<exists>entries. log (parse_rss_feed env feed_url w) = log w @ entries @ [?done]
                  \<and> length entries = length ?items
                  \<and> (\<forall>e\<in>set entries. e = LogInfo ''Saved data to news_articles table''
                         \<or> e = LogError ''Error saving to database: '' OperationalError))"
    if f: "\<forall>i<length ?items. \<not> connect_fault env (connects w + i)"
      and m: "map_of (store w) ''news_articles'' = Some rows"
  proof -
    have f0: "\<forall>i<length ?items. \<not> connect_fault env (connects ?w0 + i)"
      using f by simp
    have m0: "map_of (store ?w0) ''news_articles'' = Some rows"
      using m by simp
    from save_items_rows [OF f0 m0, of feed_url] obtain w' rows' entries where
      si: "save_items env feed_url ?items ?w0 = (Inr (), w')"
        "map_of (store w') ''news_articles'' = Some (rows @ rows')"
        "map cells rows' = accepted_news env feed_url (ticks ?w0) (inserts ?w0) ?items"
        "\<forall>t. t \<noteq> ''news_articles'' \<longrightarrow> map_of (store w') t = map_of (store ?w0) t"
        "inserts w' = inserts ?w0 + length ?items"
        "log w' = log ?w0 @ entries"
        "length entries = length ?items"
        "\<forall>e\<in>set entries. e = LogInfo ''Saved data to news_articles table''
                  \<or> e = LogError ''Error saving to database: '' OperationalError"
      by blast
    have p: "parse_rss_feed env feed_url w = logger ?done w'"
      by (simp add: parse_rss_feed_def body then_do_def si(1))
    have a: "map cells rows' = accepted_news env feed_url (ticks w) (inserts w) ?items"
      using si(3) by simp
    have all: "length rows' = length ?items
               \<and> map cells rows'
                   = map (\<lambda>(t, item). news_data feed_url item (isoformat env t))
                       (enumerate (ticks w) ?items)"
      if "\<forall>i<length ?items. \<not> execute_fault env (inserts w + i) ''news_articles''
              (news_data feed_url (?items ! i) (isoformat env (ticks w + i)))"
    proof -
      have e: "map cells rows'
               = map (\<lambda>(t, item). news_data feed_url item (isoformat env t))
                   (enumerate (ticks w) ?items)"
        using accepted_news_all [OF that] a by simp
      have "length (map cells rows')
            = length (map (\<lambda>(t, item). news_data feed_url item (isoformat env t))
                       (enumerate (ticks w) ?items))"
        by (simp only: e)
      then have "length rows' = length ?items"
        by simp
      with e show ?thesis
        by blast
    qed
    have "map_of (store (parse_rss_feed env feed_url w)) ''news_articles'' = Some (rows @ rows')"
      using si(2) by (simp add: p logger_def)
    moreover have "\<forall>t. t \<noteq> ''news_articles'' \<longrightarrow>
                  map_of (store (parse_rss_feed env feed_url w)) t = map_of (store w) t"
      using si(4) by (simp add: p logger_def)
    moreover have "inserts (parse_rss_feed env feed_url w) = inserts w + length ?items"
      using si(5) by (simp add: p logger_def)
    moreover have "log (parse_rss_feed env feed_url w) = log w @ entries @ [?done]"
      using si(6) by (simp add: p logger_def)
    ultimately show ?thesis
      using a all si(7,8) by blast
  qed
  have empty: "store (parse_rss_feed env feed_url w) = store w
       \<and> log (parse_rss_feed env feed_url w) = log w @ [?done]"
    if "?items = []"
    using that by (simp add: parse_rss_feed_def body then_do_def logger_def)
  have fields: "\<forall>item stamp.
                 map_of (news_data feed_url item stamp) ''title''
                   = Some (PyText (case find_first ''title'' (children item) of
                                    None \<Rightarrow> ustr ''No title''
                                  | Some t \<Rightarrow> get_text [] False (children t)))
               \<and> map_of (news_data feed_url item stamp) ''content''
                   = Some (PyText (case find_first ''description'' (children item) of
                                    None \<Rightarrow> []
                                  | Some t \<Rightarrow> get_text [] False (children t)))
               \<and> map_of (news_data feed_url item stamp) ''published_date''
                   = Some (PyText (case find_first ''pubDate'' (children item) of
                                    None \<Rightarrow> []
                                  | Some t \<Rightarrow> get_text [] False (children t)))
               \<and> map_of (news_data feed_url item stamp) ''url''
                   = Some (PyText (case find_first ''link'' (children item) of
                                    None \<Rightarrow> []
                                  | Some t \<Rightarrow> get_text [] False (children t)))"
    by (simp add: news_data_def item_field_def)
  show ?thesis
    unfolding Let_def using ok empty fields by blast
qed

lemma feed_demo:
  "map (\<lambda>(t, item). news_data ''http://rss.cnn.com/rss/cnn_world.rss'' item (isoformat demo_env t))
     (enumerate (ticks fresh_world) (find_all [''item''] demo_feed))
   = [[(''title'', PyStr ''A''), (''content'', PyStr []),
       (''source'', PyStr ''http://rss.cnn.com/rss/cnn_world.rss''),
       (''published_date'', PyStr ''Mon''),
       (''url'', PyStr ''http://a''), (''authors'', PyStr []),
       (''timestamp'', PyStr ''2024-01-01T00:00:00.0'')],
      [(''title'', PyStr ''No title''), (''content'', PyStr ''d''),
       (''source'', PyStr ''http://rss.cnn.com/rss/cnn_world.rss''),
       (''published_date'', PyStr []), (''url'', PyStr []),
       (''authors'', PyStr []),
       (''timestamp'', PyStr ''2024-01-01T00:00:00.1'')]]"
  by code_simp

lemma feed_flaky:
  "accepted_news flaky_db_env ''http://rss.cnn.com/rss/cnn_world.rss'' (ticks fresh_world)
     (inserts fresh_world) (find_all [''item''] demo_feed)
   = [[(''title'', PyStr ''No title''), (''content'', PyStr ''d''),
       (''source'', PyStr ''http://rss.cnn.com/rss/cnn_world.rss''),
       (''published_date'', PyStr []), (''url'', PyStr []),
       (''authors'', PyStr []),
       (''timestamp'', PyStr ''2024-01-01T00:00:00.1'')]]"
  by code_simp

theorem parse_rss_feed_items_witness:
  "http_get demo_env (length (requests fresh_world)) ''http://rss.cnn.com/rss/cnn_world.rss'' None
     = Response 200 demo_xml
   \<and> \<not> (400 \<le> (200::nat) \<and> (200::nat) < 600)
   \<and> xml_parser demo_env demo_xml = Some demo_feed
   \<and> (\<exists>rows'. map_of (store (parse_rss_feed demo_env ''http://rss.cnn.com/rss/cnn_world.rss''
                                  fresh_world)) ''news_articles'' = Some rows'
         \<and> length rows' = 2
         \<and> map cells rows'
             = [[(''title'', PyStr ''A''), (''content'', PyStr []),
                 (''source'', PyStr ''http://rss.cnn.com/rss/cnn_world.rss''),
                 (''published_date'', PyStr ''Mon''),
                 (''url'', PyStr ''http://a''), (''authors'', PyStr []),
                 (''timestamp'', PyStr ''2024-01-01T00:00:00.0'')],
                [(''title'', PyStr ''No title''), (''content'', PyStr ''d''),
                 (''source'', PyStr ''http://rss.cnn.com/rss/cnn_world.rss''),
                 (''published_date'', PyStr []), (''url'', PyStr []),
                 (''authors'', PyStr []),
                 (''timestamp'', PyStr ''2024-01-01T00:00:00.1'')]])
   \<and> (\<exists>rows'. map_of (store (parse_rss_feed flaky_db_env ''http://rss.cnn.com/rss/cnn_world.rss''
                                  fresh_world)) ''news_articles'' = Some rows'
         \<and> map cells rows'
             = [[(''title'', PyStr ''No title''), (''content'', PyStr ''d''),
                 (''source'', PyStr ''http://rss.cnn.com/rss/cnn_world.rss''),
                 (''published_date'', PyStr []), (''url'', PyStr []),
                 (''authors'', PyStr []),
                 (''timestamp'', PyStr ''2024-01-01T00:00:00.1'')]])"
proof -
  have h1: "http_get demo_env (length (requests fresh_world)) ''http://rss.cnn.com/rss/cnn_world.rss'' None
     = Response 200 demo_xml"
    and h3: "xml_parser demo_env demo_xml = Some demo_feed"
    and c: "\<forall>i<length (find_all [''item''] demo_feed).
              \<not> connect_fault demo_env (connects fresh_world + i)"
    and x: "\<forall>i<length (find_all [''item''] demo_feed).
              \<not> execute_fault demo_env (inserts fresh_world + i) ''news_articles''
                 (news_data ''http://rss.cnn.com/rss/cnn_world.rss''
                    (find_all [''item''] demo_feed ! i)
                    (isoformat demo_env (ticks fresh_world + i)))"
    by (simp_all add: demo_env_def)
  have g1: "http_get flaky_db_env (length (requests fresh_world))
              ''http://rss.cnn.com/rss/cnn_world.rss'' None = Response 200 demo_xml"
    and g3: "xml_parser flaky_db_env demo_xml = Some demo_feed"
    and gc: "\<forall>i<length (find_all [''item''] demo_feed).
              \<not> connect_fault flaky_db_env (connects fresh_world + i)"
    by (simp_all add: flaky_db_env_def demo_env_def)
  have h2: "\<not> (400 \<le> (200::nat) \<and> (200::nat) < 600)"
    by simp
  have m: "map_of (store fresh_world) ''news_articles'' = Some []"
    by (simp add: fresh_world_eq)
  have r: "\<exists>rows'. map_of (store (parse_rss_feed demo_env ''http://rss.cnn.com/rss/cnn_world.rss''
                                  fresh_world)) ''news_articles'' = Some ([] @ rows')
         \<and> length rows' = length (find_all [''item''] demo_feed)
         \<and> map cells rows'
             = map (\<lambda>(t, item). news_data ''http://rss.cnn.com/rss/cnn_world.rss'' item (isoformat demo_env t))
                 (enumerate (ticks fresh_world) (find_all [''item''] demo_feed))"
    using parse_rss_feed_items [OF h1 h2 h3, of "[]"] c x m unfolding Let_def by blast
  have q: "\<exists>rows'. map_of (store (parse_rss_feed flaky_db_env ''http://rss.cnn.com/rss/cnn_world.rss''
                                  fresh_world)) ''news_articles'' = Some ([] @ rows')
         \<and> map cells rows'
             = accepted_news flaky_db_env ''http://rss.cnn.com/rss/cnn_world.rss''
                 (ticks fresh_world) (inserts fresh_world) (find_all [''item''] demo_feed)"
    using parse_rss_feed_items [OF g1 h2 g3, of "[]"] gc m unfolding Let_def by blast
  have l: "length (find_all [''item''] demo_feed) = 2"
    by code_simp
  show ?thesis
    using h1 h2 h3 r q unfolding feed_demo feed_flaky l by simp
qed

text \<open>
  C5 as stated fails: the feed is fetched and parsed and has two items, the database
  rejects both inserts, no row is appended, and the feed is logged as parsed
  successfully.
\<close>

theorem parse_rss_feed_drops_items:
  "http_get faulty_db_env (length (requests fresh_world)) ''http://rss.cnn.com/rss/cnn_world.rss''
     None = Response 200 demo_xml
   \<and> xml_parser faulty_db_env demo_xml = Some demo_feed
   \<and> length (find_all [''item''] demo_feed) = 2
   \<and> map_of (store (parse_rss_feed faulty_db_env ''http://rss.cnn.com/rss/cnn_world.rss''
                       fresh_world)) ''news_articles'' = Some []
   \<and> log (parse_rss_feed faulty_db_env ''http://rss.cnn.com/rss/cnn_world.rss'' fresh_world)
       = [LogError ''Error saving to database: '' OperationalError,
          LogError ''Error saving to database: '' OperationalError,
          LogInfo ''Successfully parsed RSS feed from http://rss.cnn.com/rss/cnn_world.rss'']"
  by code_simp

subsection \<open>The requests of a run\<close>

lemma write_file_requests: "requests (snd (write_file env f c w)) = requests w"
  by (simp add: write_file_def Let_def)










lemma count_table_records_frame:
  "requests (snd (count_table_records env t w)) = requests w"
  "store (snd (count_table_records env t w)) = store w"
  "files (snd (count_table_records env t w)) = files w"
  "inserts (snd (count_table_records env t w)) = inserts w"
  by (simp_all add: count_table_records_def Let_def split: option.splits)










subsection \<open>A pool without workers\<close>




subsection \<open>Two reports in a row\<close>

lemma length_alist_update:
  "length (AList.update k v al) = (if k \<in> fst ` set al then length al else Suc (length al))"
  by (induction al) auto

lemma generate_summary_report_Inr:
  assumes "fst (generate_summary_report env w) = Inr rep"
  shows "\<exists>r1 r2 r3. map_of (store w) ''web_data'' = Some r1
           \<and> map_of (store w) ''api_data'' = Some r2
           \<and> map_of (store w) ''news_articles'' = Some r3
           \<and> rep_web_scraping rep = length r1
           \<and> rep_api_data rep = length r2
           \<and> rep_news_articles rep = length r3
           \<and> rep_file_count rep = int (length (files w))
           \<and> store (snd (generate_summary_report env w)) = store w
           \<and> files (snd (generate_summary_report env w))
               = AList.update ''collection_report.json'' (ReportDump rep) (files w)"
  using assms
  by (auto simp: generate_summary_report_def then_do_def now_def count_table_records_def
      write_file_def logger_def listdir_def Let_def split: option.splits if_splits)

text \<open>
  C8, as amended. When two consecutive calls of \<open>generate_summary_report\<close> both return a
  report, the three counts of \<open>data_sources\<close> agree. The \<open>file_count\<close> agrees when the
  report file was already in the directory before the first call; otherwise the second
  \<open>file_count\<close> is larger by one, since the first call has created the report file in
  the directory it counts.
\<close>

theorem report_twice:
  assumes "fst (generate_summary_report env w) = Inr r1"
    and "fst (generate_summary_report env (snd (generate_summary_report env w))) = Inr r2"
  shows "rep_web_scraping r2 = rep_web_scraping r1
         \<and> rep_api_data r2 = rep_api_data r1
         \<and> rep_news_articles r2 = rep_news_articles r1
         \<and> rep_file_count r2
             = rep_file_count r1
               + (if ''collection_report.json'' \<in> fst ` set (files w) then 0 else 1)"
proof -
  let ?w1 = "snd (generate_summary_report env w)"
  from generate_summary_report_Inr [OF assms(1)] obtain a1 a2 a3 where
    1: "map_of (store w) ''web_data'' = Some a1" "map_of (store w) ''api_data'' = Some a2"
       "map_of (store w) ''news_articles'' = Some a3"
       "rep_web_scraping r1 = length a1" "rep_api_data r1 = length a2"
       "rep_news_articles r1 = length a3" "rep_file_count r1 = int (length (files w))"
       "store ?w1 = store w"
       "files ?w1 = AList.update ''collection_report.json'' (ReportDump r1) (files w)"
    by blast
  from generate_summary_report_Inr [OF assms(2)] obtain b1 b2 b3 where
    2: "map_of (store ?w1) ''web_data'' = Some b1" "map_of (store ?w1) ''api_data'' = Some b2"
       "map_of (store ?w1) ''news_articles'' = Some b3"
       "rep_web_scraping r2 = length b1" "rep_api_data r2 = length b2"
       "rep_news_articles r2 = length b3" "rep_file_count r2 = int (length (files ?w1))"
    by blast
  have "b1 = a1" "b2 = a2" "b3 = a3"
    using 1(1-3) 2(1-3) by (simp_all add: 1(8))
  moreover have "int (length (files ?w1))
      = int (length (files w)) + (if ''collection_report.json'' \<in> fst ` set (files w) then 0 else 1)"
    by (simp add: 1(9) length_alist_update)
  ultimately show ?thesis
    using 1(4-7) 2(4-7) by simp
qed

theorem report_twice_witness:
  "fst (generate_summary_report demo_env reported_world)
     = Inr \<lparr>rep_timestamp = ''2024-01-01T00:00:00.3'', rep_web_scraping = 0, rep_api_data = 0,
            rep_news_articles = 2, rep_storage_size = ''0.00 MB'', rep_file_count = 1\<rparr>
   \<and> fst (generate_summary_report demo_env (snd (generate_summary_report demo_env reported_world)))
     = Inr \<lparr>rep_timestamp = ''2024-01-01T00:00:00.4'', rep_web_scraping = 0, rep_api_data = 0,
            rep_news_articles = 2, rep_storage_size = ''0.00 MB'', rep_file_count = 1\<rparr>
   \<and> ''collection_report.json'' \<in> fst ` set (files reported_world)
   \<and> rep_file_count \<lparr>rep_timestamp = ''2024-01-01T00:00:00.4'', rep_web_scraping = 0,
          rep_api_data = 0, rep_news_articles = 2, rep_storage_size = ''0.00 MB'',
          rep_file_count = 1\<rparr>
       = rep_file_count \<lparr>rep_timestamp = ''2024-01-01T00:00:00.3'', rep_web_scraping = 0,
          rep_api_data = 0, rep_news_articles = 2, rep_storage_size = ''0.00 MB'',
          rep_file_count = 1\<rparr>
         + (if ''collection_report.json'' \<in> fst ` set (files reported_world) then 0 else 1)"
proof -
  have h1: "fst (generate_summary_report demo_env reported_world)
     = Inr \<lparr>rep_timestamp = ''2024-01-01T00:00:00.3'', rep_web_scraping = 0, rep_api_data = 0,
            rep_news_articles = 2, rep_storage_size = ''0.00 MB'', rep_file_count = 1\<rparr>"
    by code_simp
  have h2: "fst (generate_summary_report demo_env (snd (generate_summary_report demo_env reported_world)))
     = Inr \<lparr>rep_timestamp = ''2024-01-01T00:00:00.4'', rep_web_scraping = 0, rep_api_data = 0,
            rep_news_articles = 2, rep_storage_size = ''0.00 MB'', rep_file_count = 1\<rparr>"
    by code_simp
  have f: "''collection_report.json'' \<in> fst ` set (files reported_world)"
    by code_simp
  from report_twice [OF h1 h2] h1 h2 f show ?thesis
    by blast
qed


text \<open>
  C8 as stated fails: in the directory that holds only the database file, the first
  report has \<open>file_count\<close> 0 and the second has \<open>file_count\<close> 1, with the same store.
\<close>

theorem report_file_count_grows:
  "map_sum id rep_file_count (fst (generate_summary_report demo_env fresh_world)) = Inr 0
   \<and> map_sum id rep_file_count
       (fst (generate_summary_report demo_env (snd (generate_summary_report demo_env fresh_world))))
     = Inr 1
   \<and> store (snd (generate_summary_report demo_env fresh_world)) = store fresh_world"
  by code_simp


end
